theory Spec2Isabelle
  imports Complex_Main
begin

section \<open>JavaScript values used by server.js\<close>

text \<open>
  A JavaScript string is a sequence of UTF-16 code units; \<open>length\<close>, \<open>includes\<close>,
  \<open>split\<close> and \<open>===\<close> all work on code units, so a string is a list of numbers.
  Socket ids are opaque.
\<close>

type_synonym jsstring = "nat list"
type_synonym sid = nat

definition js :: "string \<Rightarrow> jsstring" where
  "js s = map of_char s"

text \<open>
  \<open>Map\<close> and \<open>Set\<close> iterate in insertion order, and \<open>Map.set\<close> on a key that is
  present keeps the key's position. Both are lists here: a map is a list of pairs, a set a
  list of members.
\<close>

type_synonym ('k, 'v) jsmap = "('k \<times> 'v) list"
type_synonym 'a jsset = "'a list"

definition jm_get :: "'k \<Rightarrow> ('k, 'v) jsmap \<Rightarrow> 'v option" where
  "jm_get k m = map_of m k"

definition jm_has :: "'k \<Rightarrow> ('k, 'v) jsmap \<Rightarrow> bool" where
  "jm_has k m = (map_of m k \<noteq> None)"

fun jm_set :: "'k \<Rightarrow> 'v \<Rightarrow> ('k, 'v) jsmap \<Rightarrow> ('k, 'v) jsmap" where
  "jm_set k v [] = [(k, v)]"
| "jm_set k v (p # m) = (if fst p = k then (k, v) # m else p # jm_set k v m)"

definition jm_delete :: "'k \<Rightarrow> ('k, 'v) jsmap \<Rightarrow> ('k, 'v) jsmap" where
  "jm_delete k m = filter (\<lambda>p. fst p \<noteq> k) m"

definition jm_keys :: "('k, 'v) jsmap \<Rightarrow> 'k list" where
  "jm_keys m = map fst m"

definition js_has :: "'a \<Rightarrow> 'a jsset \<Rightarrow> bool" where
  "js_has x s = (x \<in> set s)"

definition js_add :: "'a \<Rightarrow> 'a jsset \<Rightarrow> 'a jsset" where
  "js_add x s = (if x \<in> set s then s else s @ [x])"

definition js_delete :: "'a \<Rightarrow> 'a jsset \<Rightarrow> 'a jsset" where
  "js_delete x s = filter (\<lambda>y. y \<noteq> x) s"

section \<open>Session registry (server.js, lines 64-84)\<close>

type_synonym registry = "(jsstring, sid jsset) jsmap"

text \<open>\<open>addUserSocket\<close>: create the identity's set when it is missing, then add the id.\<close>

definition addUserSocket :: "jsstring \<Rightarrow> sid \<Rightarrow> registry \<Rightarrow> registry" where
  "addUserSocket displayName socketId userSockets =
     (let us1 = (if \<not> jm_has displayName userSockets
                 then jm_set displayName [] userSockets else userSockets)
      in case jm_get displayName us1 of
           None \<Rightarrow> us1
         | Some s \<Rightarrow> jm_set displayName (js_add socketId s) us1)"

text \<open>
  \<open>removeUserSocket\<close>: delete the id from the identity's set; when the set is then empty,
  delete the identity and return true. The result pairs the new registry with the
  returned flag.
\<close>

definition removeUserSocket :: "jsstring \<Rightarrow> sid \<Rightarrow> registry \<Rightarrow> registry \<times> bool" where
  "removeUserSocket displayName socketId userSockets =
     (case jm_get displayName userSockets of
        None \<Rightarrow> (userSockets, False)
      | Some s \<Rightarrow>
          (let s' = js_delete socketId s;
               us1 = jm_set displayName s' userSockets
           in if length s' = 0 then (jm_delete displayName us1, True)
              else (us1, False)))"

definition getUniqueOnlineUsers :: "registry \<Rightarrow> jsstring list" where
  "getUniqueOnlineUsers userSockets = jm_keys userSockets"

text \<open>
  A history of the registry: connections are added (login) and removed (disconnect,
  logout), starting from the empty map of line 46.
\<close>

datatype reg_event = Connect jsstring sid | Disconnect jsstring sid

fun reg_step :: "reg_event \<Rightarrow> registry \<Rightarrow> registry" where
  "reg_step (Connect n s) r = addUserSocket n s r"
| "reg_step (Disconnect n s) r = fst (removeUserSocket n s r)"

definition reg_run :: "reg_event list \<Rightarrow> registry" where
  "reg_run evs = fold reg_step evs []"

text \<open>
  The specification's side of the comparison: the connections of an identity that are
  open after a history, read off the history alone.
\<close>

fun open_step :: "reg_event \<Rightarrow> (jsstring \<Rightarrow> sid set) \<Rightarrow> (jsstring \<Rightarrow> sid set)" where
  "open_step (Connect n s) f = f(n := insert s (f n))"
| "open_step (Disconnect n s) f = f(n := f n - {s})"

definition open_conns :: "reg_event list \<Rightarrow> jsstring \<Rightarrow> sid set" where
  "open_conns evs = fold open_step evs (\<lambda>_. {})"

definition conns_of :: "registry \<Rightarrow> jsstring \<Rightarrow> sid set" where
  "conns_of r n = (case jm_get n r of None \<Rightarrow> {} | Some s \<Rightarrow> set s)"

definition no_empty_entry :: "registry \<Rightarrow> bool" where
  "no_empty_entry r = list_all (\<lambda>p. snd p \<noteq> []) r"

section \<open>String operations\<close>

text \<open>
  The white space that \<open>String.prototype.trim\<close> and \<open>parseInt\<close> skip: the
  WhiteSpace and LineTerminator code points of ECMAScript.
\<close>

definition is_ws :: "nat \<Rightarrow> bool" where
  "is_ws c = (c \<in> {9, 10, 11, 12, 13, 32, 160, 5760, 8232, 8233, 8239, 8287, 12288, 65279}
              \<or> (8192 \<le> c \<and> c \<le> 8202))"

definition trim :: "jsstring \<Rightarrow> jsstring" where
  "trim s = rev (dropWhile is_ws (rev (dropWhile is_ws s)))"

text \<open>\<open>s.split(sep)\<close> with a separator of one code unit; \<open>''.split(' ')\<close> is \<open>['']\<close>.\<close>

fun split_on :: "nat \<Rightarrow> jsstring \<Rightarrow> jsstring list" where
  "split_on sep [] = [[]]"
| "split_on sep (c # cs) =
     (if c = sep then [] # split_on sep cs
      else (case split_on sep cs of
              [] \<Rightarrow> [[c]]
            | p # ps \<Rightarrow> (c # p) # ps))"

text \<open>
  \<open>toLowerCase\<close>, on the code units that matter for the \<open>switch\<close> of
  \<open>processCommand\<close>: the Latin capitals, and the two code points beyond ASCII whose
  lower case contains an ASCII letter (U+212A KELVIN SIGN, U+0130). Every other code
  unit is kept; its real lower case is never a code unit of a command name.
\<close>

definition lower_unit :: "nat \<Rightarrow> jsstring" where
  "lower_unit c =
     (if 65 \<le> c \<and> c \<le> 90 then [c + 32]
      else if c = 8490 then [107]
      else if c = 304 then [105, 775]
      else [c])"

definition toLowerCase :: "jsstring \<Rightarrow> jsstring" where
  "toLowerCase s = concat (map lower_unit s)"

fun starts_with :: "jsstring \<Rightarrow> jsstring \<Rightarrow> bool" where
  "starts_with s [] = True"
| "starts_with [] (p # ps) = False"
| "starts_with (c # s) (p # ps) = (c = p \<and> starts_with s ps)"

text \<open>\<open>s.includes(p)\<close>: \<open>p\<close> occurs in \<open>s\<close> as a contiguous run.\<close>

fun str_includes :: "jsstring \<Rightarrow> jsstring \<Rightarrow> bool" where
  "str_includes [] p = (p = [])"
| "str_includes (c # s) p = (starts_with (c # s) p \<or> str_includes s p)"

definition is_digit :: "nat \<Rightarrow> bool" where
  "is_digit c = (48 \<le> c \<and> c \<le> 57)"

definition is_hex :: "nat \<Rightarrow> bool" where
  "is_hex c = (is_digit c \<or> (65 \<le> c \<and> c \<le> 70) \<or> (97 \<le> c \<and> c \<le> 102))"

definition digits_value :: "jsstring \<Rightarrow> nat" where
  "digits_value ds = foldl (\<lambda>a d. 10 * a + (d - 48)) 0 ds"

text \<open>
  \<open>parseInt(s, 10)\<close>: skip white space, read a sign, read the longest run of decimal
  digits; \<open>None\<close> is NaN. JavaScript numbers are doubles; the model computes with
  integers, which agrees with the source below \<open>2 ^ 53\<close>.
\<close>

definition parseInt :: "jsstring \<Rightarrow> int option" where
  "parseInt s =
     (let s1 = dropWhile is_ws s;
          neg = (case s1 of [] \<Rightarrow> False | c # _ \<Rightarrow> c = 45);
          s2 = (case s1 of [] \<Rightarrow> [] | c # r \<Rightarrow> if c = 45 \<or> c = 43 then r else s1);
          ds = takeWhile is_digit s2
      in if ds = [] then None
         else Some ((if neg then - 1 else 1) * int (digits_value ds)))"

text \<open>The regular expression of line 253, \<open>^(\d{1,3}\.){3}\d{1,3}$\<close>.\<close>

definition is_ipv4_pattern :: "jsstring \<Rightarrow> bool" where
  "is_ipv4_pattern s =
     (let ps = split_on 46 s
      in length ps = 4
         \<and> list_all (\<lambda>p. 1 \<le> length p \<and> length p \<le> 3 \<and> list_all is_digit p) ps)"

text \<open>The regular expression of line 432, \<open>^#[0-9A-Fa-f]{3,6}$\<close>.\<close>

definition is_color_code :: "jsstring \<Rightarrow> bool" where
  "is_color_code s =
     (case s of
        [] \<Rightarrow> False
      | c # r \<Rightarrow> c = 35 \<and> 3 \<le> length r \<and> length r \<le> 6 \<and> list_all is_hex r)"

text \<open>The marker of lines 570 and 894, U+7BA1 U+7406 U+8005.\<close>

definition admin_marker :: jsstring where
  "admin_marker = [31649, 29702, 32773]"

section \<open>Data model\<close>

text \<open>
  The constants that server.js reads from the store module: \<open>db.MAX_HISTORY\<close>,
  \<open>db.ADMIN_USERS\<close> and \<open>db.EXTRA_ADMIN_PASSWORD\<close> (\<open>None\<close> when it is not set).
\<close>

record config =
  MAX_HISTORY :: nat
  ADMIN_USERS :: "jsstring list"
  EXTRA_ADMIN_PASSWORD :: "jsstring option"

text \<open>
  An account as the store returns it on login. Only the properties that server.js reads
  are kept; an absent \<open>statusText\<close> or \<open>color\<close> is the empty string, which is falsy
  like \<open>undefined\<close>.
\<close>

record account =
  displayName :: jsstring
  isAdmin :: bool
  statusText :: jsstring
  color :: jsstring

text \<open>
  The fixed texts of server.js, one constructor for each literal or template, with the
  values the template interpolates. The line of the source is given with each.
\<close>

datatype fortune = Daikichi | Chukichi | Shokichi | Kichi | Kyo | Daikyo
  | NoResult | Gokudaikichi | Miracle | Unknown

datatype phrase =
    AdminOnly                 \<comment> \<open>132, 141, 172, 186, 232: the command is for admins\<close>
  | AllDeleted                \<comment> \<open>137\<close>
  | MuteUsage                 \<comment> \<open>144\<close>
  | MuteTimePositive          \<comment> \<open>149\<close>
  | NotOnline                 \<comment> \<open>152, 193, 364: that user is not online\<close>
  | CannotMuteAdmin           \<comment> \<open>165: an admin cannot be muted\<close>
  | MutedFor jsstring int     \<comment> \<open>168\<close>
  | UnmuteUsage               \<comment> \<open>175\<close>
  | Unmuted jsstring          \<comment> \<open>180\<close>
  | NotMutedUser              \<comment> \<open>182\<close>
  | BanUsage                  \<comment> \<open>189\<close>
  | CannotBanAdmin            \<comment> \<open>205: an admin cannot be banned\<close>
  | BannedUser jsstring       \<comment> \<open>228\<close>
  | UnbanUsage                \<comment> \<open>235\<close>
  | Unbanned jsstring         \<comment> \<open>240\<close>
  | NotBannedUser             \<comment> \<open>242\<close>
  | PrivilegedOnly            \<comment> \<open>247, 333, 348: the command is for privileged admins\<close>
  | IpBanUsage                \<comment> \<open>250\<close>
  | CannotBanPrivilegedIp     \<comment> \<open>261: the IP of a privileged admin cannot be banned\<close>
  | IpBannedDirect jsstring "jsstring option"   \<comment> \<open>293\<close>
  | IpNotFound                \<comment> \<open>298\<close>
  | CannotIpBanPrivileged     \<comment> \<open>301: a privileged admin cannot be IP-banned\<close>
  | IpBannedUser jsstring jsstring              \<comment> \<open>328\<close>
  | IpUnbanUsage              \<comment> \<open>336\<close>
  | IpUnbanned jsstring       \<comment> \<open>341\<close>
  | IpNotBanned               \<comment> \<open>343\<close>
  | IpBanListEmpty            \<comment> \<open>352\<close>
  | IpBanList "(jsstring \<times> jsstring \<times> jsstring) list"   \<comment> \<open>355\<close>
  | PrmUsage                  \<comment> \<open>359\<close>
  | PrmSelf                   \<comment> \<open>367: no private message to oneself\<close>
  | PrmDelivered jsstring     \<comment> \<open>418\<close>
  | OmikujiDrawn              \<comment> \<open>425\<close>
  | FortuneIs fortune         \<comment> \<open>427\<close>
  | ColorChanged jsstring jsstring              \<comment> \<open>437\<close>
  | ColorUsage                \<comment> \<open>440\<close>
  | DiceRolled                \<comment> \<open>446\<close>
  | DiceShows int             \<comment> \<open>448\<close>
  | CoinTossed                \<comment> \<open>456\<close>
  | CoinShows bool            \<comment> \<open>458: True is heads\<close>
  | Help bool                 \<comment> \<open>463-471: True with the admin section\<close>
  | YouAreMuted int           \<comment> \<open>900: the notice with the remaining seconds\<close>
  | KickedByAdmin             \<comment> \<open>213\<close>
  | YourIpIsBanned            \<comment> \<open>275, 310, 600, 726\<close>
  | Typed jsstring            \<comment> \<open>a phrase the client typed\<close>

text \<open>The variants that \<open>processCommand\<close> returns; \<open>null\<close> is \<open>None\<close>.\<close>

datatype cmd_result =
    ErrorResult phrase
  | SystemResult phrase
  | PrivateResult phrase
  | CommandResult phrase jsstring phrase jsstring

record message =
  mid :: jsstring
  username :: jsstring
  body :: phrase
  mcolor :: jsstring
  timestamp :: jsstring
  replyTo :: "jsstring option"
  edited :: bool
  misAdmin :: bool
  isCommandResult :: bool
  mstatusText :: jsstring

record private_message =
  pmid :: jsstring
  pfrom :: jsstring
  pto :: jsstring
  pbody :: jsstring
  pcolor :: jsstring
  ptimestamp :: jsstring

text \<open>
  A value in the payload of an event, as far as \<open>signup\<close> looks at it: the payload is
  JSON, so a field may hold something else than a string. An object is left out: it has
  no \<open>includes\<close> method, so \<open>signup\<close> never passes one to the store.
\<close>

datatype jsvalue =
    JUndefined
  | JNull
  | JBool bool
  | JNum real
  | JStr jsstring
  | JArr "jsvalue list"

text \<open>The replies passed to a handler's callback.\<close>

datatype reply =
    Success
  | SuccessId jsstring
  | DbNotConnected            \<comment> \<open>557, 592, 720\<close>
  | SignupNameLength          \<comment> \<open>563\<close>
  | SignupPasswordLength      \<comment> \<open>567\<close>
  | SignupNameRefused         \<comment> \<open>571\<close>
  | SignupError               \<comment> \<open>578: an exception in the handler\<close>
  | IpIsBanned                \<comment> \<open>600, 726\<close>
  | NameMissing               \<comment> \<open>604\<close>
  | PasswordMissing           \<comment> \<open>608\<close>
  | AdminPasswordWrong        \<comment> \<open>613\<close>
  | BannedFromChat            \<comment> \<open>620, 739\<close>
  | TokenMissing              \<comment> \<open>730\<close>
  | StoreReply jsstring       \<comment> \<open>575, 623, 735: the store's own answer, passed on\<close>
  | MutedReply                \<comment> \<open>901\<close>
  | LoginSuccess account "message list" "jsstring list" "(jsstring, jsstring) jsmap" bool

datatype event =
    AllMessagesDeleted
  | Banned phrase
  | UserLeft jsstring nat "jsstring list"
  | UserJoined jsstring nat "jsstring list"
  | PrivateMessage private_message
  | PrivateMessageMonitor private_message
  | PrivateMessageSent jsstring jsstring jsstring jsstring
  | ProfileUpdated jsstring
  | SystemMessage phrase
  | MessageEvent message
  | UserIpList "(jsstring \<times> jsstring) list"
  | UserIpHistory

text \<open>
  What a handler sends: \<open>socket.emit\<close> and \<open>sock.emit\<close> (to one connection),
  \<open>io.emit\<close> (to all), \<open>socket.broadcast.emit\<close> (to all but one) and the callback.
\<close>

datatype emit =
    ToSocket sid event
  | ToAll event
  | ToOthers sid event
  | Callback sid reply

text \<open>The calls into the store that change it, in the order they are made.\<close>

datatype ip_ban_reason = DirectIpBan "jsstring option" | UserIpBan jsstring

datatype db_call =
    DeleteAllMessages
  | AddIpBan jsstring jsstring ip_ban_reason
  | RemoveIpBan jsstring
  | AddPrivateMessage private_message
  | UpdateUser jsstring jsstring
  | AddMessage message
  | Signup jsvalue jsvalue
  | SaveUserIpHistory jsstring jsstring
  | Logout jsstring

text \<open>
  A live connection: an entry of \<open>io.sockets.sockets\<close>, with the address that
  \<open>getClientIp\<close> computes from its handshake and the two variables of its closure
  (line 540).
\<close>

record conn =
  clientIp :: jsstring
  currentUser :: "jsstring option"
  currentAccount :: "account option"

text \<open>
  The state of the process: the variables of lines 43-51, the live connections, and the
  two logs of what was sent and what was written to the store.
\<close>

record server =
  users :: "(jsstring, jsstring) jsmap"
  messages :: "message list"
  onlineUsers :: "(sid, jsstring) jsmap"
  userSockets :: registry
  adminUsers :: "sid jsset"
  mutedUsers :: "(jsstring, int) jsmap"
  bannedUsers :: "jsstring jsset"
  userStatusMap :: "(jsstring, jsstring) jsmap"
  userIpMap :: "(jsstring, jsstring) jsmap"
  sockets :: "(sid, conn) jsmap"
  emitted :: "emit list"
  dbCalls :: "db_call list"

definition initial :: server where
  "initial = \<lparr> users = [], messages = [], onlineUsers = [], userSockets = [],
     adminUsers = [], mutedUsers = [], bannedUsers = [], userStatusMap = [],
     userIpMap = [], sockets = [], emitted = [], dbCalls = [] \<rparr>"

text \<open>
  What a handler reads from outside the process during one run: the clock, the random
  generator, fresh ids and time stamps, and the answers of the store.
\<close>

datatype login_result = LoginFailed jsstring | LoginOk account

record env =
  now_check :: int        \<comment> \<open>\<open>Date.now()\<close> of line 114\<close>
  now_remaining :: int    \<comment> \<open>\<open>Date.now()\<close> of line 115\<close>
  now_mute :: int         \<comment> \<open>\<open>Date.now()\<close> of line 167\<close>
  math_random :: real          \<comment> \<open>\<open>Math.random()\<close>, in \<open>[0, 1)\<close>\<close>
  id1 :: jsstring         \<comment> \<open>the first \<open>generateId()\<close> of the run\<close>
  id2 :: jsstring         \<comment> \<open>the second\<close>
  ts1 :: jsstring         \<comment> \<open>the first \<open>new Date().toISOString()\<close> of the run\<close>
  ts2 :: jsstring         \<comment> \<open>the second\<close>
  isUsingDatabase :: bool
  isIpBanned :: bool
  login_answer :: login_result       \<comment> \<open>\<open>db.login\<close> or \<open>db.loginWithToken\<close>\<close>
  signup_answer :: jsstring          \<comment> \<open>\<open>db.signup\<close>\<close>
  removeIpBan_answer :: bool
  getAllIpBans_answer :: "(jsstring \<times> jsstring \<times> jsstring) list"
  getMessages_answer :: "message list option"

definition emit :: "emit \<Rightarrow> server \<Rightarrow> server" where
  "emit e st = st\<lparr>emitted := emitted st @ [e]\<rparr>"

definition db_call :: "db_call \<Rightarrow> server \<Rightarrow> server" where
  "db_call c st = st\<lparr>dbCalls := dbCalls st @ [c]\<rparr>"

definition emit_all :: "emit list \<Rightarrow> server \<Rightarrow> server" where
  "emit_all es st = st\<lparr>emitted := emitted st @ es\<rparr>"

section \<open>Mute check and fortune draw (lines 86-122)\<close>

definition fortunes :: "(fortune \<times> real) list" where
  "fortunes = [(Daikichi, 8), (Chukichi, 12), (Shokichi, 20), (Kichi, 15), (Kyo, 20),
     (Daikyo, 15), (NoResult, 3), (Gokudaikichi, 3), (Miracle, 1), (Unknown, 3)]"

fun draw_loop :: "real \<Rightarrow> (fortune \<times> real) list \<Rightarrow> fortune option" where
  "draw_loop r [] = None"
| "draw_loop r (f # fs) =
     (let r' = r - snd f in if r' \<le> 0 then Some (fst f) else draw_loop r' fs)"

text \<open>
  \<open>drawFortune\<close>, with the value of \<open>Math.random()\<close> as argument. The arithmetic is
  on reals: the rounding of doubles is not modelled.
\<close>

definition drawFortune :: "real \<Rightarrow> fortune" where
  "drawFortune rnd =
     (let totalWeight = foldl (\<lambda>sum f. sum + snd f) 0 fortunes
      in case draw_loop (rnd * totalWeight) fortunes of
           Some f \<Rightarrow> f
         | None \<Rightarrow> Daikichi)"

datatype mute_check = NotMuted | Muted int

text \<open>
  \<open>checkMuted\<close> reads the clock twice: once for the comparison with \<open>until\<close>, once
  for the remaining time. An entry that has expired is deleted.
\<close>

definition checkMuted :: "env \<Rightarrow> jsstring \<Rightarrow> server \<Rightarrow> mute_check \<times> server" where
  "checkMuted e name st =
     (case jm_get name (mutedUsers st) of
        None \<Rightarrow> (NotMuted, st)
      | Some until \<Rightarrow>
          if now_check e < until
          then (Muted \<lceil>real_of_int (until - now_remaining e) / 1000\<rceil>, st)
          else (NotMuted, st\<lparr>mutedUsers := jm_delete name (mutedUsers st)\<rparr>))"

section \<open>Message ring (lines 483-489)\<close>

definition addMessageToStorage :: "config \<Rightarrow> message \<Rightarrow> server \<Rightarrow> server" where
  "addMessageToStorage cfg messageData st =
     (let pushed = messages st @ [messageData];
          ring = (if length pushed > MAX_HISTORY cfg then tl pushed else pushed)
      in db_call (AddMessage messageData) (st\<lparr>messages := ring\<rparr>))"

section \<open>Admin-only broadcasts and the end of a connection\<close>

text \<open>
  The connections of an identity that \<open>io.sockets.sockets.get\<close> still finds: the loops
  of lines 393-398, 400-410 and 505-515 send to these.
\<close>

definition live_sockets_of :: "jsstring \<Rightarrow> server \<Rightarrow> sid list" where
  "live_sockets_of name st =
     (case jm_get name (userSockets st) of
        None \<Rightarrow> []
      | Some s \<Rightarrow> filter (\<lambda>i. jm_has i (sockets st)) s)"

definition admin_sockets :: "config \<Rightarrow> server \<Rightarrow> sid list" where
  "admin_sockets cfg st = concat (map (\<lambda>adminName. live_sockets_of adminName st) (ADMIN_USERS cfg))"

definition broadcastUserIpList :: "config \<Rightarrow> server \<Rightarrow> server" where
  "broadcastUserIpList cfg st =
     (let userIpList = userIpMap st
      in emit_all (map (\<lambda>i. ToSocket i (UserIpList userIpList)) (admin_sockets cfg st)) st)"

text \<open>
  \<open>broadcastUserIpHistory\<close> awaits the store before it sends; the model sends at once,
  and leaves the store's answer out of the event.
\<close>

definition broadcastUserIpHistory :: "config \<Rightarrow> server \<Rightarrow> server" where
  "broadcastUserIpHistory cfg st =
     emit_all (map (\<lambda>i. ToSocket i UserIpHistory) (admin_sockets cfg st)) st"

text \<open>
  The handler of \<open>disconnect\<close> (lines 1048-1070), run with the closure of the
  connection. The body of \<open>accountLogout\<close> (lines 828-844) is the same code.
\<close>

definition disconnect_handler :: "config \<Rightarrow> sid \<Rightarrow> conn \<Rightarrow> server \<Rightarrow> server" where
  "disconnect_handler cfg socket_id c st =
     (case currentUser c of
        None \<Rightarrow> st
      | Some userName \<Rightarrow>
          (let st1 = st\<lparr>onlineUsers := jm_delete socket_id (onlineUsers st),
                         adminUsers := js_delete socket_id (adminUsers st)\<rparr>;
               removed = removeUserSocket userName socket_id (userSockets st1);
               st2 = st1\<lparr>userSockets := fst removed\<rparr>;
               isLastSocket = snd removed
           in if isLastSocket
              then (let st3 = st2\<lparr>userStatusMap := jm_delete userName (userStatusMap st2),
                                    userIpMap := jm_delete userName (userIpMap st2)\<rparr>;
                        uniqueOnlineUsers = getUniqueOnlineUsers (userSockets st3)
                    in broadcastUserIpList cfg
                         (emit (ToAll (UserLeft userName (length uniqueOnlineUsers)
                                  uniqueOnlineUsers)) st3))
              else st2))"

text \<open>
  The end of a connection, whether the client closes it or the server calls
  \<open>sock.disconnect(true)\<close>: socket.io takes the socket out of \<open>io.sockets.sockets\<close>
  and then runs the handler of \<open>disconnect\<close>, before \<open>disconnect\<close> returns.
\<close>

definition sock_disconnect :: "config \<Rightarrow> sid \<Rightarrow> server \<Rightarrow> server" where
  "sock_disconnect cfg socket_id st =
     (case jm_get socket_id (sockets st) of
        None \<Rightarrow> st
      | Some c \<Rightarrow>
          disconnect_handler cfg socket_id c
            (st\<lparr>sockets := jm_delete socket_id (sockets st)\<rparr>))"

text \<open>
  The loop of lines 210-218 (and 272-280, 307-315) over the connections of the target.
  The handler of \<open>disconnect\<close> takes out of a set only the id of its own connection, so
  the loop visits every id that was in the set when it started.
\<close>

fun kick :: "config \<Rightarrow> phrase \<Rightarrow> sid list \<Rightarrow> server \<Rightarrow> server" where
  "kick cfg notice [] st = st"
| "kick cfg notice (i # is) st =
     (let st1 = (if jm_has i (sockets st)
                 then sock_disconnect cfg i (emit (ToSocket i (Banned notice)) st)
                 else st);
          st2 = st1\<lparr>onlineUsers := jm_delete i (onlineUsers st1),
                     adminUsers := js_delete i (adminUsers st1)\<rparr>
      in kick cfg notice is st2)"

text \<open>Lines 155-163 and 197-203: does a connection of the target hold the admin flag?\<close>

definition has_admin_socket :: "jsstring \<Rightarrow> server \<Rightarrow> bool" where
  "has_admin_socket target st =
     (case jm_get target (userSockets st) of
        None \<Rightarrow> False
      | Some s \<Rightarrow> list_ex (\<lambda>i. js_has i (adminUsers st)) s)"

section \<open>The commands of processCommand (lines 124-481)\<close>

type_synonym outcome = "cmd_result option \<times> server"

definition cmd_delete :: "bool \<Rightarrow> server \<Rightarrow> outcome" where
  "cmd_delete isAdm st =
     (if \<not> isAdm then (Some (ErrorResult AdminOnly), st)
      else (Some (SystemResult AllDeleted),
            emit (ToAll AllMessagesDeleted) (db_call DeleteAllMessages (st\<lparr>messages := []\<rparr>))))"

definition cmd_mute ::
  "config \<Rightarrow> env \<Rightarrow> jsstring \<Rightarrow> bool \<Rightarrow> jsstring list \<Rightarrow> server \<Rightarrow> outcome" where
  "cmd_mute cfg e actor isAdm args st =
     (if \<not> isAdm then (Some (ErrorResult AdminOnly), st)
      else if length args < 2 then (Some (ErrorResult MuteUsage), st)
      else (let targetUser = args ! 0 in
            case parseInt (args ! 1) of
              None \<Rightarrow> (Some (ErrorResult MuteTimePositive), st)
            | Some muteTime \<Rightarrow>
                if muteTime \<le> 0 then (Some (ErrorResult MuteTimePositive), st)
                else if targetUser \<notin> set (getUniqueOnlineUsers (userSockets st))
                then (Some (ErrorResult NotOnline), st)
                else if has_admin_socket targetUser st \<and> actor \<notin> set (ADMIN_USERS cfg)
                then (Some (ErrorResult CannotMuteAdmin), st)
                else (Some (SystemResult (MutedFor targetUser muteTime)),
                      st\<lparr>mutedUsers :=
                           jm_set targetUser (now_mute e + muteTime * 1000) (mutedUsers st)\<rparr>)))"

definition cmd_unmute :: "bool \<Rightarrow> jsstring list \<Rightarrow> server \<Rightarrow> outcome" where
  "cmd_unmute isAdm args st =
     (if \<not> isAdm then (Some (ErrorResult AdminOnly), st)
      else if length args < 1 then (Some (ErrorResult UnmuteUsage), st)
      else (let unmuteUser = args ! 0 in
            if jm_has unmuteUser (mutedUsers st)
            then (Some (SystemResult (Unmuted unmuteUser)),
                  st\<lparr>mutedUsers := jm_delete unmuteUser (mutedUsers st)\<rparr>)
            else (Some (ErrorResult NotMutedUser), st)))"

text \<open>
  Lines 271-292 and 306-327, the same code twice: disconnect every connection of the
  user, forget the user's presence, status and IP, tell the room and send the IP list.
\<close>

definition ip_expel :: "config \<Rightarrow> jsstring \<Rightarrow> server \<Rightarrow> server" where
  "ip_expel cfg target st =
     (let ipBanSocketSet = (case jm_get target (userSockets st) of None \<Rightarrow> [] | Some s \<Rightarrow> s);
          st1 = kick cfg YourIpIsBanned ipBanSocketSet st;
          st2 = st1\<lparr>userSockets := jm_delete target (userSockets st1),
                     userStatusMap := jm_delete target (userStatusMap st1),
                     userIpMap := jm_delete target (userIpMap st1)\<rparr>;
          ipBanOnlineUsers = getUniqueOnlineUsers (userSockets st2)
      in broadcastUserIpList cfg
           (emit (ToAll (UserLeft target (length ipBanOnlineUsers) ipBanOnlineUsers)) st2))"

definition cmd_ban ::
  "config \<Rightarrow> jsstring \<Rightarrow> bool \<Rightarrow> jsstring list \<Rightarrow> server \<Rightarrow> outcome" where
  "cmd_ban cfg actor isAdm args st =
     (if \<not> isAdm then (Some (ErrorResult AdminOnly), st)
      else if length args < 1 then (Some (ErrorResult BanUsage), st)
      else (let banTarget = args ! 0 in
            if \<not> jm_has banTarget (userSockets st) then (Some (ErrorResult NotOnline), st)
            else if has_admin_socket banTarget st \<and> actor \<notin> set (ADMIN_USERS cfg)
            then (Some (ErrorResult CannotBanAdmin), st)
            else (let banUserSocketSet =
                        (case jm_get banTarget (userSockets st) of None \<Rightarrow> [] | Some s \<Rightarrow> s);
                      st1 = st\<lparr>bannedUsers := js_add banTarget (bannedUsers st)\<rparr>;
                      st2 = kick cfg KickedByAdmin banUserSocketSet st1;
                      st3 = st2\<lparr>userSockets := jm_delete banTarget (userSockets st2),
                                 userStatusMap := jm_delete banTarget (userStatusMap st2)\<rparr>;
                      uniqueOnlineUsers = getUniqueOnlineUsers (userSockets st3)
                  in (Some (SystemResult (BannedUser banTarget)),
                      emit (ToAll (UserLeft banTarget (length uniqueOnlineUsers)
                              uniqueOnlineUsers)) st3))))"

definition cmd_unban :: "bool \<Rightarrow> jsstring list \<Rightarrow> server \<Rightarrow> outcome" where
  "cmd_unban isAdm args st =
     (if \<not> isAdm then (Some (ErrorResult AdminOnly), st)
      else if length args < 1 then (Some (ErrorResult UnbanUsage), st)
      else (let unbanUser = args ! 0 in
            if js_has unbanUser (bannedUsers st)
            then (Some (SystemResult (Unbanned unbanUser)),
                  st\<lparr>bannedUsers := js_delete unbanUser (bannedUsers st)\<rparr>)
            else (Some (ErrorResult NotBannedUser), st)))"

definition cmd_ipban ::
  "config \<Rightarrow> jsstring \<Rightarrow> jsstring list \<Rightarrow> server \<Rightarrow> outcome" where
  "cmd_ipban cfg actor args st =
     (if actor \<notin> set (ADMIN_USERS cfg) then (Some (ErrorResult PrivilegedOnly), st)
      else if length args < 1 then (Some (ErrorResult IpBanUsage), st)
      else (let ipBanTarget = args ! 0;
                isIpAddress = (is_ipv4_pattern ipBanTarget \<or> str_includes ipBanTarget [58])
            in if isIpAddress
               then (let directIp = ipBanTarget;
                         found = find (\<lambda>p. snd p = directIp) (userIpMap st)
                     in if (case found of None \<Rightarrow> False
                            | Some p \<Rightarrow> fst p \<in> set (ADMIN_USERS cfg))
                        then (Some (ErrorResult CannotBanPrivilegedIp), st)
                        else (let affectedUser =
                                    (case found of None \<Rightarrow> None
                                     | Some p \<Rightarrow> if fst p = [] then None else Some (fst p));
                                  st1 = db_call (AddIpBan directIp actor (DirectIpBan affectedUser)) st;
                                  st2 = (case affectedUser of
                                           None \<Rightarrow> st1
                                         | Some a \<Rightarrow>
                                             if jm_has a (userSockets st1)
                                             then ip_expel cfg a st1
                                             else st1)
                              in (Some (SystemResult (IpBannedDirect directIp affectedUser)), st2)))
               else (case jm_get ipBanTarget (userIpMap st) of
                       None \<Rightarrow> (Some (ErrorResult IpNotFound), st)
                     | Some targetIp \<Rightarrow>
                         if targetIp = [] then (Some (ErrorResult IpNotFound), st)
                         else if ipBanTarget \<in> set (ADMIN_USERS cfg)
                         then (Some (ErrorResult CannotIpBanPrivileged), st)
                         else (let st1 = db_call (AddIpBan targetIp actor (UserIpBan ipBanTarget)) st;
                                   st2 = (if jm_has ipBanTarget (userSockets st1)
                                          then ip_expel cfg ipBanTarget st1
                                          else st1)
                               in (Some (SystemResult (IpBannedUser ipBanTarget targetIp)), st2)))))"

definition cmd_ipunban ::
  "config \<Rightarrow> env \<Rightarrow> jsstring \<Rightarrow> jsstring list \<Rightarrow> server \<Rightarrow> outcome" where
  "cmd_ipunban cfg e actor args st =
     (if actor \<notin> set (ADMIN_USERS cfg) then (Some (ErrorResult PrivilegedOnly), st)
      else if length args < 1 then (Some (ErrorResult IpUnbanUsage), st)
      else (let ipToUnban = args ! 0;
                st1 = db_call (RemoveIpBan ipToUnban) st
            in if removeIpBan_answer e
               then (Some (SystemResult (IpUnbanned ipToUnban)), st1)
               else (Some (ErrorResult IpNotBanned), st1)))"

definition cmd_ipbanlist :: "config \<Rightarrow> env \<Rightarrow> jsstring \<Rightarrow> server \<Rightarrow> outcome" where
  "cmd_ipbanlist cfg e actor st =
     (if actor \<notin> set (ADMIN_USERS cfg) then (Some (ErrorResult PrivilegedOnly), st)
      else (let ipBanList = getAllIpBans_answer e
            in if length ipBanList = 0 then (Some (SystemResult IpBanListEmpty), st)
               else (Some (SystemResult (IpBanList ipBanList)), st)))"

fun join_with :: "jsstring \<Rightarrow> jsstring list \<Rightarrow> jsstring" where
  "join_with sep [] = []"
| "join_with sep [x] = x"
| "join_with sep (x # y # ys) = x @ sep @ join_with sep (y # ys)"

definition black :: jsstring where
  "black = js ''#000000''"

definition cmd_prm ::
  "config \<Rightarrow> env \<Rightarrow> jsstring \<Rightarrow> sid \<Rightarrow> jsstring list \<Rightarrow> server \<Rightarrow> outcome" where
  "cmd_prm cfg e sender socket_id args st =
     (if length args < 2 then (Some (ErrorResult PrmUsage), st)
      else (let prmTarget = args ! 0;
                prmMessage = join_with [32] (drop 1 args)
            in if \<not> jm_has prmTarget (userSockets st) then (Some (ErrorResult NotOnline), st)
               else if prmTarget = sender then (Some (ErrorResult PrmSelf), st)
               else (let prmColor = (case jm_get sender (users st) of
                                       None \<Rightarrow> black
                                     | Some c \<Rightarrow> if c = [] then black else c);
                         prmData = \<lparr> pmid = id1 e, pfrom = sender, pto = prmTarget,
                                     pbody = prmMessage, pcolor = prmColor,
                                     ptimestamp = ts1 e \<rparr>;
                         st1 = db_call (AddPrivateMessage prmData) st;
                         st2 = emit_all (map (\<lambda>i. ToSocket i (PrivateMessage prmData))
                                           (live_sockets_of prmTarget st1)) st1;
                         st3 = emit_all (map (\<lambda>i. ToSocket i (PrivateMessageMonitor prmData))
                                           (admin_sockets cfg st2)) st2;
                         st4 = emit (ToSocket socket_id
                                       (PrivateMessageSent (id1 e) prmTarget prmMessage (ts1 e))) st3
                     in (Some (PrivateResult (PrmDelivered prmTarget)), st4))))"

text \<open>
  \<open>users\<close> is a plain object indexed by name, modelled by its own properties. For
  a user whose name is the name of a property that every object inherits (such as
  \<open>constructor\<close>), \<open>users[username]\<close> is that inherited value in the source and
  absent in the model: for every other name the model follows the source.
\<close>

definition cmd_color :: "jsstring \<Rightarrow> sid \<Rightarrow> jsstring list \<Rightarrow> server \<Rightarrow> outcome" where
  "cmd_color actor socket_id args st =
     (if args \<noteq> [] \<and> args ! 0 \<noteq> [] \<and> is_color_code (args ! 0) \<and> jm_has actor (users st)
      then (Some (SystemResult (ColorChanged actor (args ! 0))),
            emit (ToSocket socket_id (ProfileUpdated (args ! 0)))
              (db_call (UpdateUser actor (args ! 0))
                 (st\<lparr>users := jm_set actor (args ! 0) (users st)\<rparr>)))
      else (Some (ErrorResult ColorUsage), st))"

definition omikuji_name :: jsstring where
  "omikuji_name = [12362, 12415, 12367, 12376]"

definition dice_name :: jsstring where
  "dice_name = [12469, 12452, 12467, 12525]"

definition coin_name :: jsstring where
  "coin_name = [12467, 12452, 12531]"

definition cmd_omikuji :: "env \<Rightarrow> server \<Rightarrow> outcome" where
  "cmd_omikuji e st =
     (Some (CommandResult OmikujiDrawn omikuji_name (FortuneIs (drawFortune (math_random e)))
              (js ''#e74c3c'')), st)"

definition cmd_dice :: "env \<Rightarrow> server \<Rightarrow> outcome" where
  "cmd_dice e st =
     (Some (CommandResult DiceRolled dice_name (DiceShows (\<lfloor>math_random e * 6\<rfloor> + 1))
              (js ''#3498db'')), st)"

definition cmd_coin :: "env \<Rightarrow> server \<Rightarrow> outcome" where
  "cmd_coin e st =
     (Some (CommandResult CoinTossed coin_name (CoinShows (math_random e < 0.5))
              (js ''#f39c12'')), st)"

definition cmd_help :: "bool \<Rightarrow> server \<Rightarrow> outcome" where
  "cmd_help isAdm st = (Some (SystemResult (Help isAdm)), st)"

text \<open>The \<open>switch\<close> of line 129 on the first word of the command, in lower case.\<close>

datatype command = CDelete | CMute | CUnmute | CBan | CUnban | CIpBan | CIpUnban
  | CIpBanList | CPrm | COmikuji | CColor | CDice | CCoin | CHelp

definition command_of :: "jsstring \<Rightarrow> command option" where
  "command_of cmd =
     (if cmd = js ''/delete'' then Some CDelete
      else if cmd = js ''/mute'' then Some CMute
      else if cmd = js ''/unmute'' then Some CUnmute
      else if cmd = js ''/ban'' then Some CBan
      else if cmd = js ''/unban'' then Some CUnban
      else if cmd = js ''/ip'' @ [12496, 12531] \<or> cmd = js ''/ipban'' then Some CIpBan
      else if cmd = js ''/ip'' @ [12496, 12531, 35299, 38500] \<or> cmd = js ''/ipunban''
      then Some CIpUnban
      else if cmd = js ''/ip'' @ [12496, 12531, 12522, 12473, 12488] \<or> cmd = js ''/ipbanlist''
      then Some CIpBanList
      else if cmd = js ''/prm'' then Some CPrm
      else if cmd = js ''/omi'' \<or> cmd = js ''/omikuji'' then Some COmikuji
      else if cmd = js ''/color'' then Some CColor
      else if cmd = js ''/dice'' then Some CDice
      else if cmd = js ''/coin'' then Some CCoin
      else if cmd = js ''/help'' then Some CHelp
      else None)"

definition processCommand ::
  "config \<Rightarrow> env \<Rightarrow> jsstring \<Rightarrow> jsstring \<Rightarrow> sid \<Rightarrow> bool \<Rightarrow> server \<Rightarrow> outcome" where
  "processCommand cfg e command actor socket_id isAdm st =
     (case split_on 32 (trim command) of
        [] \<Rightarrow> (None, st)
      | p0 # args \<Rightarrow>
          (case command_of (toLowerCase p0) of
             None \<Rightarrow> (None, st)
           | Some CDelete \<Rightarrow> cmd_delete isAdm st
           | Some CMute \<Rightarrow> cmd_mute cfg e actor isAdm args st
           | Some CUnmute \<Rightarrow> cmd_unmute isAdm args st
           | Some CBan \<Rightarrow> cmd_ban cfg actor isAdm args st
           | Some CUnban \<Rightarrow> cmd_unban isAdm args st
           | Some CIpBan \<Rightarrow> cmd_ipban cfg actor args st
           | Some CIpUnban \<Rightarrow> cmd_ipunban cfg e actor args st
           | Some CIpBanList \<Rightarrow> cmd_ipbanlist cfg e actor st
           | Some CPrm \<Rightarrow> cmd_prm cfg e actor socket_id args st
           | Some COmikuji \<Rightarrow> cmd_omikuji e st
           | Some CColor \<Rightarrow> cmd_color actor socket_id args st
           | Some CDice \<Rightarrow> cmd_dice e st
           | Some CCoin \<Rightarrow> cmd_coin e st
           | Some CHelp \<Rightarrow> cmd_help isAdm st))"

section \<open>The handlers of a connection (lines 538-1071)\<close>

text \<open>
  A handler runs for a live connection, from its first statement to its last: the points
  where the source awaits the store are not points of interleaving in the model, and the
  store does not throw. A property that the payload of a login, a logout or a message
  may lack is \<open>None\<close>.
\<close>

definition falsy :: "jsstring option \<Rightarrow> bool" where
  "falsy v = (case v of None \<Rightarrow> True | Some s \<Rightarrow> s = [])"

definition str_of :: "jsstring option \<Rightarrow> jsstring" where
  "str_of v = (case v of None \<Rightarrow> [] | Some s \<Rightarrow> s)"

text \<open>
  What lines 562-570 do with a field of the payload: \<open>!v\<close>, \<open>v.length\<close> (\<open>None\<close>
  is \<open>undefined\<close>, and a comparison with it is false) and \<open>v.includes(s)\<close>, which is
  the search for a substring in a string, the search for an equal element in an Array,
  and a TypeError (\<open>None\<close>) for a number or a boolean.
\<close>

fun truthy :: "jsvalue \<Rightarrow> bool" where
  "truthy JUndefined = False"
| "truthy JNull = False"
| "truthy (JBool b) = b"
| "truthy (JNum x) = (x \<noteq> 0)"
| "truthy (JStr s) = (s \<noteq> [])"
| "truthy (JArr xs) = True"

fun length_of :: "jsvalue \<Rightarrow> nat option" where
  "length_of (JStr s) = Some (length s)"
| "length_of (JArr xs) = Some (length xs)"
| "length_of v = None"

fun includes_of :: "jsvalue \<Rightarrow> jsstring \<Rightarrow> bool option" where
  "includes_of (JStr s) p = Some (str_includes s p)"
| "includes_of (JArr xs) p = Some (JStr p \<in> set xs)"
| "includes_of v p = None"

definition below :: "nat option \<Rightarrow> nat \<Rightarrow> bool" where
  "below l n = (case l of None \<Rightarrow> False | Some k \<Rightarrow> k < n)"

definition above :: "nat option \<Rightarrow> nat \<Rightarrow> bool" where
  "above l n = (case l of None \<Rightarrow> False | Some k \<Rightarrow> n < k)"

text \<open>
  \<open>signup\<close> (lines 547-580), with the two fields of the payload as they arrive. The
  exception of line 570 is caught at line 576.
\<close>

definition signup :: "env \<Rightarrow> sid \<Rightarrow> jsvalue \<Rightarrow> jsvalue \<Rightarrow> server \<Rightarrow> server" where
  "signup e socket_id name password st =
     (if \<not> isUsingDatabase e then emit (Callback socket_id DbNotConnected) st
      else if \<not> truthy name \<or> below (length_of name) 1 \<or> above (length_of name) 20
      then emit (Callback socket_id SignupNameLength) st
      else if \<not> truthy password \<or> below (length_of password) 4
      then emit (Callback socket_id SignupPasswordLength) st
      else (case includes_of name admin_marker of
              None \<Rightarrow> emit (Callback socket_id SignupError) st
            | Some True \<Rightarrow> emit (Callback socket_id SignupNameRefused) st
            | Some False \<Rightarrow>
                emit (Callback socket_id (StoreReply (signup_answer e)))
                  (db_call (Signup name password) st)))"

text \<open>
  \<open>getUserStatuses\<close> (lines 491-497) copies the status map into a plain object. The
  assignment to the key \<open>__proto__\<close> of a plain object does not create a property, so
  that entry is lost. The object is given by the list of its entries.
\<close>

definition getUserStatuses :: "server \<Rightarrow> (jsstring, jsstring) jsmap" where
  "getUserStatuses st = filter (\<lambda>p. fst p \<noteq> js ''__proto__'') (userStatusMap st)"

text \<open>
  Lines 626-706 of \<open>accountLogin\<close> and 742-817 of \<open>tokenLogin\<close>: the same code, where
  \<open>tokenLogin\<close> has no admin password to grant the flag.
\<close>

definition login_success ::
  "config \<Rightarrow> env \<Rightarrow> sid \<Rightarrow> conn \<Rightarrow> account \<Rightarrow> bool \<Rightarrow> server \<Rightarrow> server" where
  "login_success cfg e socket_id c acct grantAdminByPassword st =
     (let acct' = (if grantAdminByPassword then acct\<lparr>isAdmin := True\<rparr> else acct);
          user = displayName acct;
          st1 = st\<lparr>sockets := jm_set socket_id
                                 (c\<lparr>currentUser := Some user, currentAccount := Some acct'\<rparr>)
                                 (sockets st),
                    onlineUsers := jm_set socket_id user (onlineUsers st),
                    userIpMap := jm_set user (clientIp c) (userIpMap st)\<rparr>;
          st2 = db_call (SaveUserIpHistory user (clientIp c)) st1;
          isFirstSocket = (\<not> jm_has user (userSockets st2));
          st3 = st2\<lparr>userSockets := addUserSocket user socket_id (userSockets st2)\<rparr>;
          st4 = (if isAdmin acct \<or> grantAdminByPassword
                 then st3\<lparr>adminUsers := js_add socket_id (adminUsers st3)\<rparr> else st3);
          st5 = (if statusText acct \<noteq> []
                 then st4\<lparr>userStatusMap := jm_set user (statusText acct) (userStatusMap st4)\<rparr>
                 else st4);
          st6 = (case getMessages_answer e of
                   None \<Rightarrow> st5
                 | Some freshMessages \<Rightarrow> st5\<lparr>messages := freshMessages\<rparr>);
          canMonitorPM = (user \<in> set (ADMIN_USERS cfg));
          uniqueOnlineUsers = getUniqueOnlineUsers (userSockets st6);
          st7 = emit (Callback socket_id
                        (LoginSuccess acct' (messages st6) uniqueOnlineUsers
                           (getUserStatuses st6) canMonitorPM)) st6;
          st8 = (if isFirstSocket
                 then emit (ToOthers socket_id
                              (UserJoined user (length uniqueOnlineUsers) uniqueOnlineUsers)) st7
                 else st7)
      in broadcastUserIpHistory cfg (broadcastUserIpList cfg st8))"

definition accountLogin ::
  "config \<Rightarrow> env \<Rightarrow> sid \<Rightarrow> jsstring option \<Rightarrow> jsstring option \<Rightarrow> bool \<Rightarrow> jsstring option
     \<Rightarrow> server \<Rightarrow> server" where
  "accountLogin cfg e socket_id name password adminLogin adminPassword st =
     (case jm_get socket_id (sockets st) of
        None \<Rightarrow> st
      | Some c \<Rightarrow>
          if \<not> isUsingDatabase e then emit (Callback socket_id DbNotConnected) st
          else if isIpBanned e then emit (Callback socket_id IpIsBanned) st
          else if falsy name then emit (Callback socket_id NameMissing) st
          else if falsy password then emit (Callback socket_id PasswordMissing) st
          else if adminLogin
                  \<and> (falsy adminPassword \<or> adminPassword \<noteq> EXTRA_ADMIN_PASSWORD cfg)
          then emit (Callback socket_id AdminPasswordWrong) st
          else (case login_answer e of
                  LoginFailed err \<Rightarrow> emit (Callback socket_id (StoreReply err)) st
                | LoginOk acct \<Rightarrow>
                    if js_has (displayName acct) (bannedUsers st)
                    then emit (Callback socket_id BannedFromChat) st
                    else login_success cfg e socket_id c acct
                           (adminLogin \<and> adminPassword = EXTRA_ADMIN_PASSWORD cfg) st))"

definition tokenLogin ::
  "config \<Rightarrow> env \<Rightarrow> sid \<Rightarrow> jsstring option \<Rightarrow> server \<Rightarrow> server" where
  "tokenLogin cfg e socket_id token st =
     (case jm_get socket_id (sockets st) of
        None \<Rightarrow> st
      | Some c \<Rightarrow>
          if \<not> isUsingDatabase e then emit (Callback socket_id DbNotConnected) st
          else if isIpBanned e then emit (Callback socket_id IpIsBanned) st
          else if falsy token then emit (Callback socket_id TokenMissing) st
          else (case login_answer e of
                  LoginFailed err \<Rightarrow> emit (Callback socket_id (StoreReply err)) st
                | LoginOk acct \<Rightarrow>
                    if js_has (displayName acct) (bannedUsers st)
                    then emit (Callback socket_id BannedFromChat) st
                    else login_success cfg e socket_id c acct False st))"

definition accountLogout :: "config \<Rightarrow> sid \<Rightarrow> jsstring option \<Rightarrow> server \<Rightarrow> server" where
  "accountLogout cfg socket_id token st =
     (case jm_get socket_id (sockets st) of
        None \<Rightarrow> st
      | Some c \<Rightarrow>
          (let st0 = (if falsy token then st else db_call (Logout (str_of token)) st)
           in case currentUser c of
                None \<Rightarrow> st0
              | Some userName \<Rightarrow>
                  (let st1 = disconnect_handler cfg socket_id c st0
                   in st1\<lparr>sockets := jm_set socket_id
                                        (c\<lparr>currentUser := None, currentAccount := None\<rparr>)
                                        (sockets st1)\<rparr>)))"

text \<open>Lines 951-965: an ordinary chat line.\<close>

definition chat_line ::
  "config \<Rightarrow> env \<Rightarrow> sid \<Rightarrow> conn \<Rightarrow> jsstring \<Rightarrow> bool \<Rightarrow> jsstring \<Rightarrow> jsstring
     \<Rightarrow> jsstring option \<Rightarrow> server \<Rightarrow> server" where
  "chat_line cfg e socket_id c shownName isAdm status txt reply st =
     (let messageData = \<lparr> mid = id1 e, username = shownName, body = Typed txt,
                          mcolor = (case currentAccount c of
                                      None \<Rightarrow> black
                                    | Some a \<Rightarrow> if color a = [] then black else color a),
                          timestamp = ts1 e,
                          replyTo = (if falsy reply then None else reply),
                          edited = False, misAdmin = isAdm, isCommandResult = False,
                          mstatusText = status \<rparr>
      in emit (Callback socket_id (SuccessId (mid messageData)))
           (emit (ToAll (MessageEvent messageData))
              (addMessageToStorage cfg messageData st)))"

text \<open>Lines 910-940: the two messages of a game command.\<close>

definition command_lines ::
  "config \<Rightarrow> env \<Rightarrow> sid \<Rightarrow> conn \<Rightarrow> jsstring \<Rightarrow> bool \<Rightarrow> jsstring
     \<Rightarrow> phrase \<Rightarrow> jsstring \<Rightarrow> phrase \<Rightarrow> jsstring \<Rightarrow> server \<Rightarrow> server" where
  "command_lines cfg e socket_id c shownName isAdm status userMessage resultSender
       resultMessage resultColor st =
     (let userMsgData = \<lparr> mid = id1 e, username = shownName, body = userMessage,
                          mcolor = (case currentAccount c of
                                      None \<Rightarrow> black
                                    | Some a \<Rightarrow> if color a = [] then black else color a),
                          timestamp = ts1 e, replyTo = None, edited = False,
                          misAdmin = isAdm, isCommandResult = False, mstatusText = status \<rparr>;
          st1 = emit (ToAll (MessageEvent userMsgData)) (addMessageToStorage cfg userMsgData st);
          resultMsgData = \<lparr> mid = id2 e, username = resultSender, body = resultMessage,
                            mcolor = resultColor, timestamp = ts2 e, replyTo = None,
                            edited = False, misAdmin = False, isCommandResult = True,
                            mstatusText = [] \<rparr>;
          st2 = emit (ToAll (MessageEvent resultMsgData))
                  (addMessageToStorage cfg resultMsgData st1)
      in emit (Callback socket_id Success) st2)"

text \<open>Line 894: the name shown for an admin is the name, a space and the marker.\<close>

definition admin_display :: "jsstring \<Rightarrow> jsstring" where
  "admin_display user = user @ [32] @ admin_marker"

definition sendMessage ::
  "config \<Rightarrow> env \<Rightarrow> sid \<Rightarrow> jsstring \<Rightarrow> jsstring option \<Rightarrow> server \<Rightarrow> server" where
  "sendMessage cfg e socket_id txt reply st =
     (case jm_get socket_id (sockets st) of
        None \<Rightarrow> st
      | Some c \<Rightarrow>
          (case currentUser c of
             None \<Rightarrow> st
           | Some user \<Rightarrow>
               (let isAdm = js_has socket_id (adminUsers st);
                    shownName = (if isAdm then admin_display user else user);
                    status = (case jm_get user (userStatusMap st) of None \<Rightarrow> [] | Some s \<Rightarrow> s);
                    muteCheck = checkMuted e user st
                in case fst muteCheck of
                     Muted remaining \<Rightarrow>
                       emit (Callback socket_id MutedReply)
                         (emit (ToSocket socket_id (SystemMessage (YouAreMuted remaining)))
                            (snd muteCheck))
                   | NotMuted \<Rightarrow>
                       (if starts_with txt [47]
                        then (case processCommand cfg e txt user socket_id isAdm (snd muteCheck) of
                                (None, st1) \<Rightarrow>
                                  chat_line cfg e socket_id c shownName isAdm status txt reply st1
                              | (Some (ErrorResult m), st1) \<Rightarrow>
                                  emit (Callback socket_id Success)
                                    (emit (ToSocket socket_id (SystemMessage m)) st1)
                              | (Some (CommandResult um rs rm rc), st1) \<Rightarrow>
                                  command_lines cfg e socket_id c shownName isAdm status
                                    um rs rm rc st1
                              | (Some (PrivateResult m), st1) \<Rightarrow>
                                  emit (Callback socket_id Success)
                                    (emit (ToSocket socket_id (SystemMessage m)) st1)
                              | (Some (SystemResult m), st1) \<Rightarrow>
                                  emit (Callback socket_id Success)
                                    (emit (ToAll (SystemMessage m)) st1))
                        else chat_line cfg e socket_id c shownName isAdm status txt reply
                               (snd muteCheck)))))"

section \<open>Runs of the server\<close>

datatype input =
    Connection sid jsstring
  | SignupReq sid jsvalue jsvalue
  | AccountLoginReq sid "jsstring option" "jsstring option" bool "jsstring option"
  | TokenLoginReq sid "jsstring option"
  | AccountLogoutReq sid "jsstring option"
  | SendMessageReq sid jsstring "jsstring option"
  | Closed sid

fun handle :: "config \<Rightarrow> env \<times> input \<Rightarrow> server \<Rightarrow> server" where
  "handle cfg (e, Connection i ip) st =
     st\<lparr>sockets := jm_set i \<lparr>clientIp = ip, currentUser = None, currentAccount = None\<rparr>
                       (sockets st)\<rparr>"
| "handle cfg (e, SignupReq i n p) st =
     (if jm_has i (sockets st) then signup e i n p st else st)"
| "handle cfg (e, AccountLoginReq i n p a ap) st = accountLogin cfg e i n p a ap st"
| "handle cfg (e, TokenLoginReq i t) st = tokenLogin cfg e i t st"
| "handle cfg (e, AccountLogoutReq i t) st = accountLogout cfg i t st"
| "handle cfg (e, SendMessageReq i m r) st = sendMessage cfg e i m r st"
| "handle cfg (e, Closed i) st = sock_disconnect cfg i st"

definition run :: "config \<Rightarrow> (env \<times> input) list \<Rightarrow> server \<Rightarrow> server" where
  "run cfg evs st = fold (handle cfg) evs st"

text \<open>\<open>startServer\<close> (lines 1076-1098): what the store holds replaces the empty tables.\<close>

definition startServer ::
  "(jsstring, jsstring) jsmap option \<Rightarrow> message list option \<Rightarrow> server" where
  "startServer dbUsers dbMessages =
     (let st1 = (case dbUsers of None \<Rightarrow> initial | Some us \<Rightarrow> initial\<lparr>users := us\<rparr>)
      in case dbMessages of None \<Rightarrow> st1 | Some ms \<Rightarrow> st1\<lparr>messages := ms\<rparr>)"

section \<open>Notions used in the statements\<close>

text \<open>The private message that \<open>/prm\<close> builds at lines 370-390.\<close>

definition prm_data ::
  "env \<Rightarrow> jsstring \<Rightarrow> jsstring \<Rightarrow> jsstring list \<Rightarrow> server \<Rightarrow> private_message" where
  "prm_data e sender target ws st =
     \<lparr> pmid = id1 e, pfrom = sender, pto = target, pbody = join_with [32] ws,
       pcolor = (case jm_get sender (users st) of
                   None \<Rightarrow> black
                 | Some c \<Rightarrow> if c = [] then black else c),
       ptimestamp = ts1 e \<rparr>"

text \<open>A reply that reports a failure: \<open>success: false\<close>.\<close>

definition failure_reply :: "reply \<Rightarrow> bool" where
  "failure_reply r =
     (case r of
        Success \<Rightarrow> False
      | SuccessId _ \<Rightarrow> False
      | LoginSuccess _ _ _ _ _ \<Rightarrow> False
      | _ \<Rightarrow> True)"

text \<open>
  The strings that were passed to \<open>db.signup\<close> as the name, in the order of the
  calls, and whether a value holds a string with the marker.
\<close>

fun signup_name :: "db_call \<Rightarrow> jsstring list" where
  "signup_name (Signup (JStr n) p) = [n]"
| "signup_name c = []"

fun carries_marker :: "jsvalue \<Rightarrow> bool" where
  "carries_marker (JStr s) = str_includes s admin_marker"
| "carries_marker (JArr xs) = list_ex carries_marker xs"
| "carries_marker v = False"

definition signup_names :: "server \<Rightarrow> jsstring list" where
  "signup_names st = concat (map signup_name (dbCalls st))"

text \<open>A name that the checks of lines 562-572 let through.\<close>

definition acceptable_name :: "jsstring \<Rightarrow> bool" where
  "acceptable_name n = (1 \<le> length n \<and> length n \<le> 20 \<and> \<not> str_includes n admin_marker)"

text \<open>The tables of the moderation ledger and the presence registry, side by side.\<close>

definition shared_maps ::
  "server \<Rightarrow> (jsstring, int) jsmap \<times> jsstring jsset \<times> registry
             \<times> (jsstring, jsstring) jsmap \<times> (jsstring, jsstring) jsmap" where
  "shared_maps st = (mutedUsers st, bannedUsers st, userSockets st, userStatusMap st, userIpMap st)"


text \<open>Who is listed as online, which connections are open, and the registry.\<close>

definition presence_view :: "server \<Rightarrow> jsstring list \<times> sid list \<times> registry" where
  "presence_view st =
     (getUniqueOnlineUsers (userSockets st), jm_keys (sockets st), userSockets st)"

text \<open>
  The open connections, the live connections registered for an identity, and what was
  sent and written to the store after the first \<open>a\<close> events and \<open>b\<close> calls.
\<close>

definition delivery_view ::
  "jsstring \<Rightarrow> nat \<Rightarrow> nat \<Rightarrow> server \<Rightarrow> sid list \<times> sid list \<times> emit list \<times> db_call list" where
  "delivery_view name a b st =
     (jm_keys (sockets st), live_sockets_of name st, drop a (emitted st), drop b (dbCalls st))"

section \<open>Sample configuration and runs\<close>

text \<open>
  A configuration with one privileged admin, \<open>root\<close>, and a ring of two messages; an
  environment where the store is up and nothing is banned; accounts named by an ASCII
  name; and a login by token whose account the store returns.
\<close>

definition demo_config :: config where
  "demo_config = \<lparr> MAX_HISTORY = 2, ADMIN_USERS = [js ''root''],
     EXTRA_ADMIN_PASSWORD = Some (js ''secret'') \<rparr>"

definition quiet_env :: env where
  "quiet_env = \<lparr> now_check = 0, now_remaining = 0, now_mute = 0, math_random = 0,
     id1 = js ''id-1'', id2 = js ''id-2'', ts1 = js ''ts-1'', ts2 = js ''ts-2'',
     isUsingDatabase = True, isIpBanned = False, login_answer = LoginFailed [],
     signup_answer = [], removeIpBan_answer = False, getAllIpBans_answer = [],
     getMessages_answer = None \<rparr>"

definition demo_account :: "string \<Rightarrow> bool \<Rightarrow> account" where
  "demo_account n adm = \<lparr> displayName = js n, isAdmin = adm, statusText = [], color = [] \<rparr>"

definition token_login :: "sid \<Rightarrow> string \<Rightarrow> bool \<Rightarrow> env \<times> input" where
  "token_login i n adm =
     (quiet_env\<lparr>login_answer := LoginOk (demo_account n adm)\<rparr>,
      TokenLoginReq i (Some (js ''token'')))"

text \<open>
  The privileged admin \<open>root\<close> logs in on connection 1 with the admin flag; the same
  connection then logs in as \<open>rex\<close> and closes. \<open>sam\<close>, whose account has the admin
  flag, logs in on connection 2.
\<close>

definition relogin_trace :: "(env \<times> input) list" where
  "relogin_trace =
     [(quiet_env, Connection 1 (js ''10.0.0.1'')),
      token_login 1 ''root'' True,
      token_login 1 ''rex'' False,
      (quiet_env, Closed 1),
      (quiet_env, Connection 2 (js ''10.0.0.2'')),
      token_login 2 ''sam'' True]"


text \<open>
  \<open>tom\<close> logs in on connection 1, which then logs in as \<open>rex\<close> and stays open; the
  admin \<open>sam\<close> on connection 2 bans \<open>tom\<close>.
\<close>

definition ban_trace :: "(env \<times> input) list" where
  "ban_trace =
     [(quiet_env, Connection 1 (js ''10.0.0.1'')),
      token_login 1 ''tom'' False,
      token_login 1 ''rex'' False,
      (quiet_env, Connection 2 (js ''10.0.0.2'')),
      token_login 2 ''sam'' True,
      (quiet_env, SendMessageReq 2 (js ''/ban tom'') None)]"


definition demo_message :: "string \<Rightarrow> message" where
  "demo_message s = \<lparr> mid = js s, username = js ''bob'', body = Typed (js s), mcolor = black,
     timestamp = js ''ts'', replyTo = None, edited = False, misAdmin = False,
     isCommandResult = False, mstatusText = [] \<rparr>"

definition demo_conn :: "string \<Rightarrow> string \<Rightarrow> bool \<Rightarrow> conn" where
  "demo_conn ip n adm = \<lparr> clientIp = js ip, currentUser = Some (js n),
     currentAccount = Some (demo_account n adm) \<rparr>"

text \<open>
  \<open>root\<close> on connection 1 and \<open>sam\<close> on connection 2, both with the admin flag;
  \<open>sam\<close> has an entry in \<open>users\<close>.
\<close>

definition flagged_state :: server where
  "flagged_state = initial
     \<lparr> users := [(js ''sam'', js ''#123456'')],
       onlineUsers := [(1, js ''root''), (2, js ''sam'')],
       userSockets := [(js ''root'', [1]), (js ''sam'', [2])],
       adminUsers := [1, 2],
       userIpMap := [(js ''root'', js ''10.0.0.1''), (js ''sam'', js ''10.0.0.2'')],
       sockets := [(1, demo_conn ''10.0.0.1'' ''root'' True),
                   (2, demo_conn ''10.0.0.2'' ''sam'' True)] \<rparr>"

text \<open>\<open>tom\<close> is banned; connection 1 is open and not logged in.\<close>

definition banned_state :: server where
  "banned_state = initial
     \<lparr> bannedUsers := [js ''tom''],
       sockets := [(1, \<lparr> clientIp = js ''10.0.0.1'', currentUser = None,
                          currentAccount = None \<rparr>)] \<rparr>"

text \<open>\<open>sam\<close>, on connection 2, mutes \<open>root\<close> for a minute.\<close>

definition mute_root :: "env \<times> input" where
  "mute_root = (quiet_env, SendMessageReq 2 (js ''/mute root 60'') None)"


text \<open>Two requests to sign up on connection 1; the second name ends with the marker.\<close>

definition signup_trace :: "(env \<times> input) list" where
  "signup_trace =
     [(quiet_env, Connection 1 (js ''10.0.0.1'')),
      (quiet_env, SignupReq 1 (JStr (js ''amy'')) (JStr (js ''pass''))),
      (quiet_env, SignupReq 1 (JStr (js ''amy '' @ admin_marker)) (JStr (js ''pass'')))]"

text \<open>The private message of \<open>/prm root hi there\<close>, sent by \<open>sam\<close>.\<close>

definition sample_pm :: private_message where
  "sample_pm = \<lparr> pmid = js ''id-1'', pfrom = js ''sam'', pto = js ''root'',
     pbody = js ''hi there'', pcolor = js ''#123456'', ptimestamp = js ''ts-1'' \<rparr>"

text \<open>
  \<open>tom\<close> logs in on connection 1 and the admin \<open>sam\<close> on connection 2 bans \<open>tom\<close>:
  the ban of an identity whose only connection is still its own.
\<close>

definition plain_ban_trace :: "(env \<times> input) list" where
  "plain_ban_trace =
     [(quiet_env, Connection 1 (js ''10.0.0.1'')),
      token_login 1 ''tom'' False,
      (quiet_env, Connection 2 (js ''10.0.0.2'')),
      token_login 2 ''sam'' True,
      (quiet_env, SendMessageReq 2 (js ''/ban tom'') None)]"

text \<open>
  A request to sign up whose name is an Array with one string, which ends with the
  marker.
\<close>

definition array_signup_trace :: "(env \<times> input) list" where
  "array_signup_trace =
     [(quiet_env, Connection 1 (js ''10.0.0.1'')),
      (quiet_env, SignupReq 1 (JArr [JStr (js ''amy '' @ admin_marker)]) (JStr (js ''pass'')))]"

text \<open>
  \<open>sam\<close> logs in on connection 1; the same connection logs in as \<open>rex\<close> and then
  closes.
\<close>

definition ghost_trace :: "(env \<times> input) list" where
  "ghost_trace =
     [(quiet_env, Connection 1 (js ''10.0.0.1'')),
      token_login 1 ''sam'' False,
      token_login 1 ''rex'' False,
      (quiet_env, Closed 1)]"

text \<open>
  \<open>sam\<close>, on connection 2, sends a private message to \<open>root\<close>, and the message
  that \<open>/prm\<close> builds from it.
\<close>

definition prm_root :: "env \<times> input" where
  "prm_root = (quiet_env, SendMessageReq 2 (js ''/prm root hello'') None)"

definition ghost_pm :: private_message where
  "ghost_pm = \<lparr> pmid = js ''id-1'', pfrom = js ''sam'', pto = js ''root'',
     pbody = js ''hello'', pcolor = black, ptimestamp = js ''ts-1'' \<rparr>"

section \<open>Evaluation of the string and table operations\<close>

lemmas string_eval = js_def trim_def is_ws_def toLowerCase_def lower_unit_def command_of_def
  parseInt_def digits_value_def is_digit_def is_hex_def is_color_code_def admin_marker_def

lemmas table_eval = jm_get_def jm_has_def jm_delete_def jm_keys_def js_has_def js_add_def
  js_delete_def

lemmas sample_eval = demo_config_def quiet_env_def demo_account_def token_login_def
  mute_root_def run_def initial_def startServer_def black_def

lemmas handler_eval = getUniqueOnlineUsers_def addUserSocket_def removeUserSocket_def
  emit_def emit_all_def db_call_def live_sockets_of_def admin_sockets_def
  broadcastUserIpList_def broadcastUserIpHistory_def disconnect_handler_def
  sock_disconnect_def has_admin_socket_def login_success_def tokenLogin_def
  falsy_def str_of_def sendMessage_def checkMuted_def processCommand_def
  cmd_mute_def cmd_ban_def cmd_color_def cmd_prm_def addMessageToStorage_def chat_line_def
  admin_display_def getUserStatuses_def Let_def

section \<open>Facts about maps and sets\<close>

lemma map_of_jm_set: "map_of (jm_set k v m) = (map_of m)(k \<mapsto> v)"
  by (induction m) auto

lemma map_of_jm_delete: "map_of (jm_delete k m) = (map_of m)(k := None)"
  by (induction m) (auto simp: jm_delete_def)

lemma jm_get_set: "jm_get k' (jm_set k v m) = (if k' = k then Some v else jm_get k' m)"
  by (simp add: jm_get_def map_of_jm_set)

lemma jm_get_delete: "jm_get k' (jm_delete k m) = (if k' = k then None else jm_get k' m)"
  by (simp add: jm_get_def map_of_jm_delete)

lemma jm_has_get: "jm_has k m = (jm_get k m \<noteq> None)"
  by (simp add: jm_has_def jm_get_def)

lemma jm_keys_has: "k \<in> set (jm_keys m) \<longleftrightarrow> jm_has k m"
  by (simp add: jm_keys_def jm_has_def map_of_eq_None_iff)

lemma set_js_add: "set (js_add x s) = insert x (set s)"
  by (auto simp: js_add_def)

lemma set_js_delete: "set (js_delete x s) = set s - {x}"
  by (auto simp: js_delete_def)

lemma jm_set_values:
  "list_all P m \<Longrightarrow> P (k, v) \<Longrightarrow> list_all P (jm_set k v m)"
  by (induction m) auto

lemma jm_delete_values: "list_all P m \<Longrightarrow> list_all P (jm_delete k m)"
  by (induction m) (auto simp: jm_delete_def)

lemma jm_delete_set: "jm_delete k (jm_set k v m) = jm_delete k m"
  by (induction m) (auto simp: jm_delete_def)

lemma jm_set_set: "jm_set k v (jm_set k w m) = jm_set k v m"
  by (induction m) auto

lemma js_delete_empty: "js_delete x s = [] \<Longrightarrow> set s - {x} = {}"
  using set_js_delete [of x s] by simp

section \<open>Registry invariants\<close>

lemma addUserSocket_eq:
  "addUserSocket n s r =
     jm_set n (js_add s (case jm_get n r of None \<Rightarrow> [] | Some t \<Rightarrow> t)) r"
  by (simp add: addUserSocket_def Let_def jm_get_set jm_has_get jm_set_set
           split: option.splits)

lemma conns_of_add:
  "conns_of (addUserSocket n s r) m = (if m = n then insert s (conns_of r n) else conns_of r m)"
  by (auto simp: conns_of_def addUserSocket_eq jm_get_set set_js_add split: option.splits)

lemma conns_of_remove:
  "conns_of (fst (removeUserSocket n s r)) m =
     (if m = n then conns_of r n - {s} else conns_of r m)"
  by (auto simp: conns_of_def removeUserSocket_def Let_def jm_get_set jm_get_delete
                 set_js_delete
           dest: js_delete_empty split: option.splits)

lemma js_add_nonempty: "js_add x s \<noteq> []"
  by (auto simp: js_add_def)

lemma no_empty_add: "no_empty_entry r \<Longrightarrow> no_empty_entry (addUserSocket n s r)"
  by (simp add: no_empty_entry_def addUserSocket_eq js_add_nonempty jm_set_values)

lemma no_empty_remove:
  "no_empty_entry r \<Longrightarrow> no_empty_entry (fst (removeUserSocket n s r))"
  by (auto simp: no_empty_entry_def removeUserSocket_def Let_def jm_delete_set
           intro!: jm_set_values jm_delete_values split: option.splits)

lemma no_empty_step: "no_empty_entry r \<Longrightarrow> no_empty_entry (reg_step e r)"
  by (cases e) (simp_all add: no_empty_add no_empty_remove)

lemma conns_of_step: "conns_of (reg_step e r) = open_step e (conns_of r)"
  by (cases e) (auto simp: conns_of_add conns_of_remove fun_eq_iff)

lemma fold_reg_step:
  "no_empty_entry r \<Longrightarrow>
   no_empty_entry (fold reg_step evs r)
   \<and> conns_of (fold reg_step evs r) = fold open_step evs (conns_of r)"
  by (induction evs arbitrary: r) (simp_all add: no_empty_step conns_of_step)

lemma listed_iff_conns:
  "no_empty_entry r \<Longrightarrow> n \<in> set (getUniqueOnlineUsers r) \<longleftrightarrow> conns_of r n \<noteq> {}"
proof -
  assume inv: "no_empty_entry r"
  have "\<And>s. map_of r n = Some s \<Longrightarrow> s \<noteq> []"
  proof -
    fix s assume "map_of r n = Some s"
    then have "(n, s) \<in> set r" by (rule map_of_SomeD)
    with inv show "s \<noteq> []" by (auto simp: no_empty_entry_def list_all_iff)
  qed
  then show ?thesis
    by (auto simp: getUniqueOnlineUsers_def jm_keys_has jm_has_get conns_of_def jm_get_def
             split: option.splits)
qed

lemma addUserSocket_idem:
  "addUserSocket n s (addUserSocket n s r) = addUserSocket n s r"
proof -
  have "js_add s (js_add s t) = js_add s t" for t
    by (simp add: js_add_def)
  then show ?thesis
    by (simp add: addUserSocket_eq jm_get_set jm_set_set)
qed

lemma remove_last_deletes:
  "jm_get n r = Some [s] \<Longrightarrow>
   snd (removeUserSocket n s r) \<and> \<not> jm_has n (fst (removeUserSocket n s r))"
  by (simp add: removeUserSocket_def Let_def js_delete_def jm_has_get jm_get_delete)

text \<open>
  The registry functions by themselves. After any history of calls of \<open>addUserSocket\<close>
  and \<open>removeUserSocket\<close>, an identity is in the online list exactly when at least
  one id that was added for it has not been removed since; no identity is registered
  with an empty set; adding an id twice is the same as adding it once; and removing the
  only id of an identity reports the last connection and deletes the identity.
\<close>

lemma registry_presence_iff_open:
  "(n \<in> set (getUniqueOnlineUsers (reg_run evs)) \<longleftrightarrow> open_conns evs n \<noteq> {})
   \<and> no_empty_entry (reg_run evs)
   \<and> addUserSocket n s (addUserSocket n s r) = addUserSocket n s r
   \<and> (jm_get n r = Some [s] \<longrightarrow>
        snd (removeUserSocket n s r) \<and> \<not> jm_has n (fst (removeUserSocket n s r)))"
proof -
  have e: "no_empty_entry ([] :: registry)" by (simp add: no_empty_entry_def)
  have c: "conns_of ([] :: registry) = (\<lambda>_. {})"
    by (simp add: conns_of_def jm_get_def fun_eq_iff)
  from fold_reg_step [OF e, of evs]
  have inv: "no_empty_entry (reg_run evs)"
    and eq: "conns_of (reg_run evs) = open_conns evs"
    by (simp_all add: reg_run_def open_conns_def c)
  from listed_iff_conns [OF inv, of n] eq
  have "n \<in> set (getUniqueOnlineUsers (reg_run evs)) \<longleftrightarrow> open_conns evs n \<noteq> {}"
    by simp
  with inv addUserSocket_idem remove_last_deletes show ?thesis by blast
qed

lemma registry_presence_example:
  "js ''bob'' \<in> set (getUniqueOnlineUsers
       (reg_run [Connect (js ''bob'') 1, Connect (js ''bob'') 2, Disconnect (js ''bob'') 1]))
   \<and> open_conns [Connect (js ''bob'') 1, Connect (js ''bob'') 2, Disconnect (js ''bob'') 1]
         (js ''bob'') \<noteq> {}
   \<and> jm_get (js ''bob'') [(js ''bob'', [1])] = Some [1]
   \<and> snd (removeUserSocket (js ''bob'') 1 [(js ''bob'', [1])])
   \<and> \<not> jm_has (js ''bob'') (fst (removeUserSocket (js ''bob'') 1 [(js ''bob'', [1])]))"
  using registry_presence_iff_open
          [of "js ''bob''"
              "[Connect (js ''bob'') 1, Connect (js ''bob'') 2, Disconnect (js ''bob'') 1]"
              1 "[(js ''bob'', [1])]"]
  by (simp add: open_conns_def jm_get_def)

text \<open>
  C2. An identity is in the online list if and only if at least one of its connections
  is open. The handlers do not keep this: a login registers the connection for the new
  identity and leaves it registered for the identity that the connection had before,
  and the end of the connection removes it from the current identity only. After
  \<open>sam\<close> logs in on connection 1, the same connection logs in as \<open>rex\<close> and then
  closes, the online list is \<open>[sam]\<close>, no connection is open, and the registry still
  holds connection 1 for \<open>sam\<close>.
\<close>

theorem C2_listed_without_open_connection:
  "presence_view (run demo_config ghost_trace initial)
     = ([js ''sam''], [], [(js ''sam'', [1])])"
  by (simp add: sample_eval handler_eval string_eval table_eval ghost_trace_def
        presence_view_def)

section \<open>Mute expiry\<close>





section \<open>Message ring\<close>

text \<open>
  C6. When the ring holds at most \<open>MAX_HISTORY\<close> messages before an append, it holds at
  most \<open>MAX_HISTORY\<close> after it. Below the cap the message is added at the end; at the
  cap the oldest message is dropped and the others keep their order, followed by the
  new one.
\<close>

theorem C6_ring_bounded:
  assumes "length (messages st) \<le> MAX_HISTORY cfg"
  shows "length (messages (addMessageToStorage cfg m st)) \<le> MAX_HISTORY cfg
       \<and> (length (messages st) < MAX_HISTORY cfg \<longrightarrow>
            messages (addMessageToStorage cfg m st) = messages st @ [m])
       \<and> (length (messages st) = MAX_HISTORY cfg \<longrightarrow>
            messages (addMessageToStorage cfg m st) = tl (messages st @ [m]))
       \<and> (length (messages st) = MAX_HISTORY cfg \<and> messages st \<noteq> [] \<longrightarrow>
            messages (addMessageToStorage cfg m st) = tl (messages st) @ [m])"
  using assms
  by (auto simp: addMessageToStorage_def db_call_def Let_def)

theorem C6_ring_bounded_witness:
  "messages (addMessageToStorage demo_config (demo_message ''c'')
              (initial\<lparr>messages := [demo_message ''a'', demo_message ''b'']\<rparr>))
     = [demo_message ''b'', demo_message ''c'']
   \<and> messages (addMessageToStorage demo_config (demo_message ''b'')
              (initial\<lparr>messages := [demo_message ''a'']\<rparr>))
     = [demo_message ''a'', demo_message ''b'']"
  using C6_ring_bounded [of "initial\<lparr>messages := [demo_message ''a'', demo_message ''b'']\<rparr>"
                            demo_config "demo_message ''c''"]
        C6_ring_bounded [of "initial\<lparr>messages := [demo_message ''a'']\<rparr>"
                            demo_config "demo_message ''b''"]
  by (simp add: demo_config_def initial_def)

section \<open>Muted senders\<close>



section \<open>Protection of admins against mute, ban and IP ban\<close>









section \<open>What a ban purges\<close>

lemma bannedUsers_disconnect_handler:
  "bannedUsers (disconnect_handler cfg i c st) = bannedUsers st"
  by (simp add: disconnect_handler_def broadcastUserIpList_def emit_def emit_all_def Let_def
           split: option.splits)

lemma bannedUsers_sock_disconnect:
  "bannedUsers (sock_disconnect cfg i st) = bannedUsers st"
  by (simp add: sock_disconnect_def bannedUsers_disconnect_handler split: option.splits)

lemma bannedUsers_kick: "bannedUsers (kick cfg notice is st) = bannedUsers st"
  by (induction "is" arbitrary: st)
     (simp_all add: Let_def bannedUsers_sock_disconnect emit_def)

lemma sockets_disconnect_handler:
  "sockets (disconnect_handler cfg i c st) = sockets st"
  by (simp add: disconnect_handler_def broadcastUserIpList_def emit_def emit_all_def Let_def
           split: option.splits)

lemma sockets_sock_disconnect:
  "jm_has j (sockets (sock_disconnect cfg i st)) \<longleftrightarrow> jm_has j (sockets st) \<and> j \<noteq> i"
  by (auto simp: sock_disconnect_def sockets_disconnect_handler jm_has_get jm_get_delete
           split: option.splits)

lemma sockets_kick_step:
  "jm_has j (sockets (if jm_has i (sockets st) then sock_disconnect cfg i (emit e st) else st))
     \<longleftrightarrow> jm_has j (sockets st) \<and> j \<noteq> i"
  by (auto simp: sockets_sock_disconnect emit_def)

lemma sockets_kick:
  "jm_has j (sockets (kick cfg notice is st)) \<longleftrightarrow> jm_has j (sockets st) \<and> j \<notin> set is"
proof (induction "is" arbitrary: st)
  case Nil
  show ?case by simp
next
  case (Cons i "is")
  have "jm_has j (sockets (kick cfg notice (i # is) st))
          \<longleftrightarrow> jm_has j (sockets (if jm_has i (sockets st)
                                      then sock_disconnect cfg i (emit (ToSocket i (Banned notice)) st)
                                      else st))
              \<and> j \<notin> set is"
    by (simp add: Let_def Cons.IH)
  then show ?case by (auto simp: sockets_kick_step)
qed

text \<open>
  What a successful \<open>/ban\<close> does do, whatever the connections of the target are: the
  target is in the ban set, none of its registered connections is live any more, its
  presence and status entries are gone, and the last event is the \<open>userLeft\<close>
  broadcast with the list of those still present.
\<close>

lemma cmd_ban_effects:
  assumes "isAdm" and "jm_has target (userSockets st)"
      and "\<not> (has_admin_socket target st \<and> actor \<notin> set (ADMIN_USERS cfg))"
  shows "fst (cmd_ban cfg actor isAdm (target # rest) st) = Some (SystemResult (BannedUser target))"
    and "js_has target (bannedUsers (snd (cmd_ban cfg actor isAdm (target # rest) st)))"
    and "\<And>s j. jm_get target (userSockets st) = Some s \<Longrightarrow> j \<in> set s \<Longrightarrow>
           \<not> jm_has j (sockets (snd (cmd_ban cfg actor isAdm (target # rest) st)))"
    and "\<not> jm_has target (userSockets (snd (cmd_ban cfg actor isAdm (target # rest) st)))"
    and "jm_get target (userStatusMap (snd (cmd_ban cfg actor isAdm (target # rest) st))) = None"
    and "last (emitted (snd (cmd_ban cfg actor isAdm (target # rest) st)))
           = ToAll (UserLeft target
               (length (getUniqueOnlineUsers
                  (userSockets (snd (cmd_ban cfg actor isAdm (target # rest) st)))))
               (getUniqueOnlineUsers
                  (userSockets (snd (cmd_ban cfg actor isAdm (target # rest) st)))))"
proof -
  let ?st' = "snd (cmd_ban cfg actor isAdm (target # rest) st)"
  obtain s0 where s0: "jm_get target (userSockets st) = Some s0"
    using assms(2) by (auto simp: jm_has_get)
  define st2 where "st2 = kick cfg KickedByAdmin s0 (st\<lparr>bannedUsers := js_add target (bannedUsers st)\<rparr>)"
  define st3 where "st3 = st2\<lparr>userSockets := jm_delete target (userSockets st2),
                               userStatusMap := jm_delete target (userStatusMap st2)\<rparr>"
  have run: "cmd_ban cfg actor isAdm (target # rest) st
               = (Some (SystemResult (BannedUser target)),
                  emit (ToAll (UserLeft target (length (getUniqueOnlineUsers (userSockets st3)))
                                 (getUniqueOnlineUsers (userSockets st3)))) st3)"
    using assms s0 by (auto simp: cmd_ban_def Let_def st2_def st3_def)
  show "fst (cmd_ban cfg actor isAdm (target # rest) st) = Some (SystemResult (BannedUser target))"
    by (simp add: run)
  show "js_has target (bannedUsers ?st')"
    by (simp add: run emit_def st3_def st2_def bannedUsers_kick js_has_def set_js_add)
  show "\<not> jm_has j (sockets ?st')" if "jm_get target (userSockets st) = Some s" "j \<in> set s"
    for s j
    using that s0 by (simp add: run emit_def st3_def st2_def sockets_kick)
  show "\<not> jm_has target (userSockets ?st')"
    by (simp add: run emit_def st3_def jm_has_get jm_get_delete)
  show "jm_get target (userStatusMap ?st') = None"
    by (simp add: run emit_def st3_def jm_get_delete)
  show "last (emitted ?st')
           = ToAll (UserLeft target (length (getUniqueOnlineUsers (userSockets ?st')))
                      (getUniqueOnlineUsers (userSockets ?st')))"
    by (simp add: run emit_def)
qed

text \<open>
  The tables after the two sample bans, as \<open>(mutedUsers, bannedUsers, userSockets,
  userStatusMap, userIpMap)\<close>. When the connection of \<open>tom\<close> is still its own, the
  handler of \<open>disconnect\<close>, which \<open>sock.disconnect(true)\<close> runs, deletes the entry of
  \<open>tom\<close> in \<open>userIpMap\<close>. When that connection has logged in again as \<open>rex\<close>, the
  handler cleans up after \<open>rex\<close>, and \<open>/ban\<close> itself (lines 219-220) deletes the
  presence and status entries of \<open>tom\<close> only.
\<close>

lemma plain_ban_after:
  "shared_maps (run demo_config plain_ban_trace initial)
     = ([], [js ''tom''], [(js ''sam'', [2])], [], [(js ''sam'', js ''10.0.0.2'')])"
  by (simp add: sample_eval handler_eval string_eval table_eval plain_ban_trace_def
        shared_maps_def)

lemma ban_after:
  "shared_maps (run demo_config ban_trace initial)
     = ([], [js ''tom''], [(js ''sam'', [2])], [],
        [(js ''tom'', js ''10.0.0.1''), (js ''sam'', js ''10.0.0.2'')])"
  by (simp add: sample_eval handler_eval string_eval table_eval ban_trace_def shared_maps_def)

text \<open>
  C4. After the successful \<open>/ban tom\<close> of the run \<open>ban_trace\<close>, \<open>tom\<close> is in the ban
  set and has no presence entry, but the IP cache still holds the address of \<open>tom\<close>.
\<close>

theorem C4_ban_keeps_ip_entry:
  "js_has (js ''tom'') (bannedUsers (run demo_config ban_trace initial))
   \<and> \<not> jm_has (js ''tom'') (userSockets (run demo_config ban_trace initial))
   \<and> jm_get (js ''tom'') (userIpMap (run demo_config ban_trace initial)) = Some (js ''10.0.0.1'')"
  using ban_after
  by (simp add: shared_maps_def table_eval js_def)

section \<open>Private messages\<close>

lemma live_sockets_of_logs [simp]:
  "live_sockets_of n (st\<lparr>emitted := x\<rparr>) = live_sockets_of n st"
  "live_sockets_of n (st\<lparr>dbCalls := y\<rparr>) = live_sockets_of n st"
  by (simp_all add: live_sockets_of_def cong: option.case_cong)

lemma admin_sockets_logs [simp]:
  "admin_sockets cfg (st\<lparr>emitted := x\<rparr>) = admin_sockets cfg st"
  "admin_sockets cfg (st\<lparr>dbCalls := y\<rparr>) = admin_sockets cfg st"
  by (simp_all add: admin_sockets_def)

lemma live_in_admin_sockets:
  "n \<in> set (ADMIN_USERS cfg) \<Longrightarrow> set (live_sockets_of n st) \<subseteq> set (admin_sockets cfg st)"
  by (auto simp: admin_sockets_def)

text \<open>
  \<open>/prm\<close> as the code decides it. It returns an error and leaves the state as it is
  when the recipient is the sender or has no entry in the presence registry. Otherwise
  it writes the private message to the store; sends it, in this order, as
  \<open>privateMessage\<close> to every live connection of the recipient and as
  \<open>privateMessageMonitor\<close> to every live connection of every privileged admin that is
  present; and sends \<open>privateMessageSent\<close> to the connection the command came from,
  and to no other. A recipient that is a privileged admin is among the monitors, so each
  of its connections gets both events.
\<close>

lemma prm_routing:
  assumes parts: "split_on 32 (trim command) = p0 # target # word # ws"
      and cmd: "command_of (toLowerCase p0) = Some CPrm"
  shows "(target = sender \<or> \<not> jm_has target (userSockets st) \<longrightarrow>
            processCommand cfg e command sender i isAdm st
              = (Some (ErrorResult (if jm_has target (userSockets st) then PrmSelf else NotOnline)),
                 st))
       \<and> (target \<noteq> sender \<and> jm_has target (userSockets st) \<longrightarrow>
            processCommand cfg e command sender i isAdm st
              = (Some (PrivateResult (PrmDelivered target)),
                 st\<lparr>emitted := emitted st
                       @ map (\<lambda>j. ToSocket j (PrivateMessage (prm_data e sender target (word # ws) st)))
                           (live_sockets_of target st)
                       @ map (\<lambda>j. ToSocket j
                                    (PrivateMessageMonitor (prm_data e sender target (word # ws) st)))
                           (admin_sockets cfg st)
                       @ [ToSocket i (PrivateMessageSent (id1 e) target
                                        (join_with [32] (word # ws)) (ts1 e))],
                    dbCalls := dbCalls st
                       @ [AddPrivateMessage (prm_data e sender target (word # ws) st)]\<rparr>))
       \<and> (target \<in> set (ADMIN_USERS cfg) \<longrightarrow>
            set (live_sockets_of target st) \<subseteq> set (admin_sockets cfg st))"
  using parts cmd
  by (auto simp: processCommand_def cmd_prm_def Let_def prm_data_def emit_def emit_all_def
                 db_call_def live_in_admin_sockets)

lemma prm_routing_example:
  "processCommand demo_config quiet_env (js ''/prm sam hi there'') (js ''sam'') 2 True flagged_state
     = (Some (ErrorResult PrmSelf), flagged_state)
   \<and> processCommand demo_config quiet_env (js ''/prm zed hi there'') (js ''sam'') 2 True flagged_state
     = (Some (ErrorResult NotOnline), flagged_state)
   \<and> processCommand demo_config quiet_env (js ''/prm root hi there'') (js ''sam'') 2 True flagged_state
     = (Some (PrivateResult (PrmDelivered (js ''root''))),
        flagged_state\<lparr>emitted := [ToSocket 1 (PrivateMessage sample_pm),
                                   ToSocket 1 (PrivateMessageMonitor sample_pm),
                                   ToSocket 2 (PrivateMessageSent (js ''id-1'') (js ''root'')
                                                 (js ''hi there'') (js ''ts-1''))],
                      dbCalls := [AddPrivateMessage sample_pm]\<rparr>)"
  using prm_routing
          [of "js ''/prm sam hi there''" "js ''/prm''" "js ''sam''" "js ''hi''" "[js ''there'']"
              "js ''sam''" flagged_state demo_config quiet_env 2 True]
        prm_routing
          [of "js ''/prm zed hi there''" "js ''/prm''" "js ''zed''" "js ''hi''" "[js ''there'']"
              "js ''sam''" flagged_state demo_config quiet_env 2 True]
        prm_routing
          [of "js ''/prm root hi there''" "js ''/prm''" "js ''root''" "js ''hi''" "[js ''there'']"
              "js ''sam''" flagged_state demo_config quiet_env 2 True]
  by (simp add: string_eval table_eval demo_config_def flagged_state_def initial_def
        quiet_env_def prm_data_def sample_pm_def live_sockets_of_def admin_sockets_def
        demo_conn_def demo_account_def black_def)

text \<open>
  C7. \<open>/prm\<close> fails with an error and changes nothing when the recipient has no
  active connection. The code tests the presence registry instead, and the registry
  keeps an identity whose connection has logged in again under another name. In the
  run where connection 1 logs in as \<open>root\<close>, then as \<open>rex\<close>, and closes, and
  \<open>sam\<close> logs in on connection 2 and sends \<open>/prm root hello\<close>: connection 2 is the
  only open connection, \<open>root\<close> has no live connection, and yet the command succeeds:
  the message is written to the store, no \<open>privateMessage\<close> is sent to anyone, and
  \<open>sam\<close> gets \<open>privateMessageSent\<close> and the confirmation of delivery.
\<close>

theorem C7_prm_to_closed_recipient:
  "delivery_view (js ''root'') 11 3 (run demo_config (relogin_trace @ [prm_root]) initial)
     = ([2], [],
        [ToSocket 2 (PrivateMessageSent (js ''id-1'') (js ''root'') (js ''hello'') (js ''ts-1'')),
         ToSocket 2 (SystemMessage (PrmDelivered (js ''root''))),
         Callback 2 Success],
        [AddPrivateMessage ghost_pm])"
  by (simp add: sample_eval handler_eval string_eval table_eval relogin_trace_def prm_root_def
        ghost_pm_def delivery_view_def)

section \<open>The color command\<close>






section \<open>Signup and the admin marker\<close>

lemma dbCalls_emit [simp]: "dbCalls (emit x st) = dbCalls st"
  by (simp add: emit_def)

lemma dbCalls_emit_all [simp]: "dbCalls (emit_all xs st) = dbCalls st"
  by (simp add: emit_all_def)

lemma dbCalls_db_call [simp]: "dbCalls (db_call c st) = dbCalls st @ [c]"
  by (simp add: db_call_def)

lemma dbCalls_broadcastUserIpList [simp]: "dbCalls (broadcastUserIpList cfg st) = dbCalls st"
  by (simp add: broadcastUserIpList_def)

lemma dbCalls_broadcastUserIpHistory [simp]:
  "dbCalls (broadcastUserIpHistory cfg st) = dbCalls st"
  by (simp add: broadcastUserIpHistory_def)

lemma dbCalls_disconnect_handler [simp]:
  "dbCalls (disconnect_handler cfg i c st) = dbCalls st"
  by (simp add: disconnect_handler_def Let_def split: option.splits)

lemma dbCalls_sock_disconnect [simp]: "dbCalls (sock_disconnect cfg i st) = dbCalls st"
  by (simp add: sock_disconnect_def split: option.splits)

lemma dbCalls_kick [simp]: "dbCalls (kick cfg notice is st) = dbCalls st"
  by (induction "is" arbitrary: st) (simp_all add: Let_def)

lemma dbCalls_ip_expel [simp]: "dbCalls (ip_expel cfg target st) = dbCalls st"
  by (simp add: ip_expel_def Let_def)

lemma signup_names_logs [simp]:
  "signup_names (st\<lparr>dbCalls := dbCalls st @ [c]\<rparr>) = signup_names st @ signup_name c"
  by (simp add: signup_names_def)

lemma signup_names_same: "dbCalls st' = dbCalls st \<Longrightarrow> signup_names st' = signup_names st"
  by (simp add: signup_names_def)

lemma signup_names_added:
  "dbCalls st' = dbCalls st @ [c] \<Longrightarrow> signup_name c = [] \<Longrightarrow> signup_names st' = signup_names st"
  by (simp add: signup_names_def)

lemma sn_delete: "signup_names (snd (cmd_delete isAdm st)) = signup_names st"
  by (simp add: cmd_delete_def signup_names_def)

lemma sn_mute: "signup_names (snd (cmd_mute cfg e actor isAdm args st)) = signup_names st"
  by (simp add: cmd_mute_def signup_names_def Let_def split: option.splits)

lemma sn_unmute: "signup_names (snd (cmd_unmute isAdm args st)) = signup_names st"
  by (simp add: cmd_unmute_def signup_names_def Let_def)

lemma sn_ban: "signup_names (snd (cmd_ban cfg actor isAdm args st)) = signup_names st"
  by (simp add: cmd_ban_def signup_names_def Let_def)

lemma sn_unban: "signup_names (snd (cmd_unban isAdm args st)) = signup_names st"
  by (simp add: cmd_unban_def signup_names_def Let_def)

lemma sn_ipban: "signup_names (snd (cmd_ipban cfg actor args st)) = signup_names st"
  by (simp add: cmd_ipban_def signup_names_def Let_def split: option.splits)

lemma sn_ipunban: "signup_names (snd (cmd_ipunban cfg e actor args st)) = signup_names st"
  by (simp add: cmd_ipunban_def signup_names_def Let_def)

lemma sn_ipbanlist: "signup_names (snd (cmd_ipbanlist cfg e actor st)) = signup_names st"
  by (simp add: cmd_ipbanlist_def Let_def)

lemma sn_prm: "signup_names (snd (cmd_prm cfg e actor i args st)) = signup_names st"
  by (simp add: cmd_prm_def signup_names_def Let_def)

lemma sn_color: "signup_names (snd (cmd_color actor i args st)) = signup_names st"
  by (simp add: cmd_color_def signup_names_def)

lemma signup_names_processCommand:
  "signup_names (snd (processCommand cfg e command actor i isAdm st)) = signup_names st"
  by (simp add: processCommand_def sn_delete sn_mute sn_unmute sn_ban sn_unban sn_ipban
        sn_ipunban sn_ipbanlist sn_prm sn_color cmd_omikuji_def cmd_dice_def cmd_coin_def
        cmd_help_def
      split: list.splits option.splits command.splits)

lemma signup_names_checkMuted:
  "signup_names (snd (checkMuted e u st)) = signup_names st"
  by (simp add: checkMuted_def signup_names_def split: option.splits)

lemma signup_names_emit [simp]: "signup_names (emit x st) = signup_names st"
  by (simp add: signup_names_def)

lemma signup_names_chat_line:
  "signup_names (chat_line cfg e i c shown isAdm status txt reply st) = signup_names st"
  by (simp add: chat_line_def addMessageToStorage_def signup_names_def Let_def)

lemma signup_names_command_lines:
  "signup_names (command_lines cfg e i c shown isAdm status um rs rm rc st) = signup_names st"
  by (simp add: command_lines_def addMessageToStorage_def signup_names_def Let_def)

lemma signup_names_sendMessage:
  "signup_names (sendMessage cfg e i txt reply st) = signup_names st"
proof -
  have p: "signup_names st1 = signup_names st"
    if "processCommand cfg e txt u i isAdm (snd (checkMuted e u st)) = (r, st1)"
    for r st1 u isAdm
    using signup_names_processCommand [of cfg e "txt" u i isAdm "snd (checkMuted e u st)"] that
    by (simp add: signup_names_checkMuted)
  show ?thesis
    by (auto simp: sendMessage_def Let_def signup_names_checkMuted signup_names_chat_line
                   signup_names_command_lines
             dest: p
             split: option.splits mute_check.splits prod.splits cmd_result.splits)
qed

lemma signup_names_login_success:
  "signup_names (login_success cfg e i c acct grant st) = signup_names st"
  by (simp add: login_success_def signup_names_def Let_def split: option.splits)

lemma signup_names_accountLogin:
  "signup_names (accountLogin cfg e i n p a ap st) = signup_names st"
  by (simp add: accountLogin_def signup_names_login_success
           split: option.splits login_result.splits)

lemma signup_names_tokenLogin:
  "signup_names (tokenLogin cfg e i t st) = signup_names st"
  by (simp add: tokenLogin_def signup_names_login_success
           split: option.splits login_result.splits)

lemma signup_names_accountLogout:
  "signup_names (accountLogout cfg i t st) = signup_names st"
  by (simp add: accountLogout_def signup_names_def Let_def split: option.splits)

lemma signup_names_signup:
  "signup_names (signup e i name password st) = signup_names st
   \<or> (\<exists>s. name = JStr s \<and> acceptable_name s
          \<and> signup_names (signup e i name password st) = signup_names st @ [s])"
proof (cases name)
  case (JStr s)
  then show ?thesis
    by (simp add: signup_def signup_names_def acceptable_name_def below_def above_def Suc_le_eq
             split: bool.splits)
next
  case (JArr xs)
  then show ?thesis
    by (simp add: signup_def signup_names_def below_def above_def split: bool.splits)
qed (simp_all add: signup_def signup_names_def below_def above_def)

lemma acceptable_handle:
  "list_all acceptable_name (signup_names st) \<Longrightarrow>
   list_all acceptable_name (signup_names (handle cfg ev st))"
proof (cases ev)
  case (Pair e inp)
  assume inv: "list_all acceptable_name (signup_names st)"
  show ?thesis
  proof (cases inp)
    case (SignupReq i n p)
    with Pair inv signup_names_signup [of e i n p st] show ?thesis by auto
  next
    case (Connection i ip)
    with Pair inv show ?thesis by (simp add: signup_names_def)
  next
    case (Closed i)
    with Pair inv show ?thesis by (simp add: signup_names_def)
  qed (use Pair inv in \<open>simp_all add: signup_names_accountLogin signup_names_tokenLogin
         signup_names_accountLogout signup_names_sendMessage\<close>)
qed

lemma acceptable_run:
  "list_all acceptable_name (signup_names st) \<Longrightarrow>
   list_all acceptable_name (signup_names (run cfg evs st))"
  unfolding run_def
  by (induction evs arbitrary: st) (simp_all add: acceptable_handle)

lemma starts_with_self: "starts_with (b @ c) b"
  by (induction b) simp_all

lemma str_includes_suffix: "str_includes (a @ b) b"
proof (induction a)
  case Nil
  show ?case using starts_with_self [of b "[]"] by (cases b) simp_all
next
  case (Cons x a)
  then show ?case by simp
qed

lemma admin_display_marked: "str_includes (admin_display user) admin_marker"
  using str_includes_suffix [of "user @ [32]" admin_marker]
  by (simp add: admin_display_def)

text \<open>
  Names that are strings. \<open>signup\<close> refuses, without a call to the store, every
  string that contains the marker, every string shorter than 1 or longer than 20 code
  units, and every password string shorter than 4; a string with the marker that passes
  the other checks gets the refusal of line 571. So in every run of the server from its
  initial state, each string that was passed to \<open>db.signup\<close> as the name is free of
  the marker, and none of them equals a name shown with the admin suffix.
\<close>

lemma signup_refuses_marked_string:
  "(str_includes name admin_marker \<or> length name < 1
      \<or> 20 < length name \<or> length password < 4 \<longrightarrow>
        signup e i (JStr name) (JStr password) st
          \<in> (\<lambda>r. st\<lparr>emitted := emitted st @ [Callback i r]\<rparr>)
              ` {DbNotConnected, SignupNameLength, SignupPasswordLength, SignupNameRefused})
   \<and> (isUsingDatabase e \<and> 1 \<le> length name \<and> length name \<le> 20
        \<and> 4 \<le> length password \<and> str_includes name admin_marker \<longrightarrow>
        signup e i (JStr name) (JStr password) st
          = st\<lparr>emitted := emitted st @ [Callback i SignupNameRefused]\<rparr>)
   \<and> list_all acceptable_name (signup_names (run cfg evs initial))
   \<and> (n \<in> set (signup_names (run cfg evs initial)) \<longrightarrow>
        \<not> str_includes n admin_marker \<and> n \<noteq> admin_display u)"
proof -
  have 1: "str_includes name admin_marker \<or> length name < 1
      \<or> 20 < length name \<or> length password < 4 \<longrightarrow>
        signup e i (JStr name) (JStr password) st
          \<in> (\<lambda>r. st\<lparr>emitted := emitted st @ [Callback i r]\<rparr>)
              ` {DbNotConnected, SignupNameLength, SignupPasswordLength, SignupNameRefused}"
    by (auto simp: signup_def emit_def below_def above_def)
  have 2: "isUsingDatabase e \<and> 1 \<le> length name \<and> length name \<le> 20
        \<and> 4 \<le> length password \<and> str_includes name admin_marker \<longrightarrow>
        signup e i (JStr name) (JStr password) st
          = st\<lparr>emitted := emitted st @ [Callback i SignupNameRefused]\<rparr>"
    by (auto simp: signup_def emit_def below_def above_def)
  have "list_all acceptable_name (signup_names initial)"
    by (simp add: signup_names_def initial_def)
  then have 3: "list_all acceptable_name (signup_names (run cfg evs initial))"
    by (rule acceptable_run)
  have 4: "n \<in> set (signup_names (run cfg evs initial)) \<longrightarrow>
        \<not> str_includes n admin_marker \<and> n \<noteq> admin_display u"
  proof
    assume "n \<in> set (signup_names (run cfg evs initial))"
    with 3 have "acceptable_name n" by (simp add: list_all_iff)
    then have "\<not> str_includes n admin_marker" by (simp add: acceptable_name_def)
    with admin_display_marked [of u]
    show "\<not> str_includes n admin_marker \<and> n \<noteq> admin_display u" by auto
  qed
  from 1 2 3 4 show ?thesis by blast
qed

lemma signup_refuses_marked_string_example:
  "signup quiet_env 1 (JStr (js ''amy '' @ admin_marker)) (JStr (js ''pass'')) initial
     = initial\<lparr>emitted := [Callback 1 SignupNameRefused]\<rparr>
   \<and> signup_names (run demo_config signup_trace initial) = [js ''amy'']
   \<and> \<not> str_includes (js ''amy'') admin_marker
   \<and> js ''amy'' \<noteq> admin_display (js ''amy'')"
  using signup_refuses_marked_string
          [of "js ''amy '' @ admin_marker" "js ''pass''" quiet_env 1 initial
              demo_config signup_trace "js ''amy''" "js ''amy''"]
  by (simp add: string_eval table_eval quiet_env_def initial_def signup_trace_def
        run_def signup_def below_def above_def emit_def db_call_def signup_names_def
        admin_display_def)

text \<open>
  C9. \<open>signup\<close> rejects every requested name that contains the admin marker, so that
  no name with the marker is registered. The handler applies its checks to the field as
  it arrives and never tests that it is a string. For the name that is the Array of the
  one string \<open>amy\<close>, a space and the marker, with the password \<open>pass\<close>: the length is
  1, \<open>includes\<close> looks for an element equal to the marker and finds none, and the
  handler calls \<open>db.signup\<close> with that value, which holds the marker, and answers with
  the reply of the store.
\<close>

theorem C9_array_name_reaches_store:
  "dbCalls (run demo_config array_signup_trace initial)
     = [Signup (JArr [JStr (js ''amy '' @ admin_marker)]) (JStr (js ''pass''))]
   \<and> emitted (run demo_config array_signup_trace initial)
     = [Callback 1 (StoreReply (signup_answer quiet_env))]
   \<and> carries_marker (JArr [JStr (js ''amy '' @ admin_marker)])"
  by (simp add: string_eval table_eval quiet_env_def initial_def array_signup_trace_def
        run_def signup_def below_def above_def emit_def db_call_def)

section \<open>Login of a banned identity\<close>

text \<open>
  C10. When the store authenticates an identity that is in the ban set, \<open>accountLogin\<close>
  and \<open>tokenLogin\<close> answer the callback with a failure and change nothing else: no
  presence, admin flag, status or IP entry is written. When the request got as far as
  the store (the store is up, the address is not banned, the fields are present and the
  admin password, if asked for, is right), the failure is the ban error.
\<close>

theorem C10_banned_login_rejected:
  assumes ans: "login_answer e = LoginOk acct"
      and banned: "js_has (displayName acct) (bannedUsers st)"
      and live: "jm_get i (sockets st) = Some c"
  shows "(\<exists>r. failure_reply r
             \<and> accountLogin cfg e i name password adminLogin adminPassword st
                 = st\<lparr>emitted := emitted st @ [Callback i r]\<rparr>)
       \<and> (\<exists>r. failure_reply r
             \<and> tokenLogin cfg e i token st = st\<lparr>emitted := emitted st @ [Callback i r]\<rparr>)
       \<and> (isUsingDatabase e \<and> \<not> isIpBanned e \<and> \<not> falsy name \<and> \<not> falsy password
            \<and> (adminLogin \<longrightarrow> \<not> falsy adminPassword \<and> adminPassword = EXTRA_ADMIN_PASSWORD cfg)
            \<longrightarrow> accountLogin cfg e i name password adminLogin adminPassword st
                  = st\<lparr>emitted := emitted st @ [Callback i BannedFromChat]\<rparr>)
       \<and> (isUsingDatabase e \<and> \<not> isIpBanned e \<and> \<not> falsy token
            \<longrightarrow> tokenLogin cfg e i token st
                  = st\<lparr>emitted := emitted st @ [Callback i BannedFromChat]\<rparr>)"
proof -
  define ra where "ra =
    (if \<not> isUsingDatabase e then DbNotConnected
     else if isIpBanned e then IpIsBanned
     else if falsy name then NameMissing
     else if falsy password then PasswordMissing
     else if adminLogin \<and> (falsy adminPassword \<or> adminPassword \<noteq> EXTRA_ADMIN_PASSWORD cfg)
     then AdminPasswordWrong
     else BannedFromChat)"
  define rt where "rt =
    (if \<not> isUsingDatabase e then DbNotConnected
     else if isIpBanned e then IpIsBanned
     else if falsy token then TokenMissing
     else BannedFromChat)"
  have a: "accountLogin cfg e i name password adminLogin adminPassword st
             = st\<lparr>emitted := emitted st @ [Callback i ra]\<rparr>"
    using ans banned live by (simp add: accountLogin_def emit_def ra_def)
  have t: "tokenLogin cfg e i token st = st\<lparr>emitted := emitted st @ [Callback i rt]\<rparr>"
    using ans banned live by (simp add: tokenLogin_def emit_def rt_def)
  have fa: "failure_reply ra" by (simp add: ra_def failure_reply_def)
  have ft: "failure_reply rt" by (simp add: rt_def failure_reply_def)
  have ga: "isUsingDatabase e \<and> \<not> isIpBanned e \<and> \<not> falsy name \<and> \<not> falsy password
            \<and> (adminLogin \<longrightarrow> \<not> falsy adminPassword \<and> adminPassword = EXTRA_ADMIN_PASSWORD cfg)
            \<longrightarrow> ra = BannedFromChat"
    by (auto simp: ra_def)
  have gt: "isUsingDatabase e \<and> \<not> isIpBanned e \<and> \<not> falsy token \<longrightarrow> rt = BannedFromChat"
    by (simp add: rt_def)
  from a fa have 1: "\<exists>r. failure_reply r
             \<and> accountLogin cfg e i name password adminLogin adminPassword st
                 = st\<lparr>emitted := emitted st @ [Callback i r]\<rparr>" by blast
  from t ft have 2: "\<exists>r. failure_reply r
             \<and> tokenLogin cfg e i token st = st\<lparr>emitted := emitted st @ [Callback i r]\<rparr>"
    by blast
  from a ga have 3: "isUsingDatabase e \<and> \<not> isIpBanned e \<and> \<not> falsy name \<and> \<not> falsy password
            \<and> (adminLogin \<longrightarrow> \<not> falsy adminPassword \<and> adminPassword = EXTRA_ADMIN_PASSWORD cfg)
            \<longrightarrow> accountLogin cfg e i name password adminLogin adminPassword st
                  = st\<lparr>emitted := emitted st @ [Callback i BannedFromChat]\<rparr>"
    by auto
  from t gt have 4: "isUsingDatabase e \<and> \<not> isIpBanned e \<and> \<not> falsy token
            \<longrightarrow> tokenLogin cfg e i token st
                  = st\<lparr>emitted := emitted st @ [Callback i BannedFromChat]\<rparr>"
    by auto
  from 1 2 3 4 show ?thesis by blast
qed

theorem C10_banned_login_rejected_witness:
  "accountLogin demo_config (quiet_env\<lparr>login_answer := LoginOk (demo_account ''tom'' False)\<rparr>) 1
       (Some (js ''tom'')) (Some (js ''pass'')) True (Some (js ''secret'')) banned_state
     = banned_state\<lparr>emitted := [Callback 1 BannedFromChat]\<rparr>
   \<and> tokenLogin demo_config (quiet_env\<lparr>login_answer := LoginOk (demo_account ''tom'' False)\<rparr>) 1
       (Some (js ''token'')) banned_state
     = banned_state\<lparr>emitted := [Callback 1 BannedFromChat]\<rparr>"
  using C10_banned_login_rejected
          [of "quiet_env\<lparr>login_answer := LoginOk (demo_account ''tom'' False)\<rparr>"
              "demo_account ''tom'' False" banned_state 1
              "\<lparr> clientIp = js ''10.0.0.1'', currentUser = None, currentAccount = None \<rparr>"
              demo_config "Some (js ''tom'')" "Some (js ''pass'')" True "Some (js ''secret'')"
              "Some (js ''token'')"]
  by (simp add: string_eval table_eval banned_state_def initial_def quiet_env_def
        demo_account_def demo_config_def falsy_def)

end
